theory Spec2Isabelle
  imports Main
begin

section \<open>LoginSession: data model\<close>

text \<open>
  Shallow embedding of \<^verbatim>\<open>src/LoginSession.ts\<close>. The class is a record of its fields,
  extended by the part of the Node runtime the class acts on (armed timers, queued
  \<^verbatim>\<open>setImmediate\<close> callbacks, poll calls in flight), by the log of emitted events
  (the \<^verbatim>\<open>EventEmitter\<close> base class) and by the log of calls made to the
  \<^verbatim>\<open>AuthenticationClient\<close>. Every \<^verbatim>\<open>throw\<close> is a value of \<open>error\<close>; a method that can
  throw returns its result together with the state it leaves behind.
\<close>

text \<open>
  Modelled from the spec: the enumeration \<^verbatim>\<open>enums-steam/EResult\<close> is not among the
  sources. The three result codes the spec and the class name are constructors; every
  other result code is \<open>OtherEResult n\<close>.
\<close>

datatype EResult = OK | InvalidLoginAuthCode | TwoFactorCodeMismatch | OtherEResult nat

text \<open>
  Modelled from the spec: the enumeration \<^verbatim>\<open>enums-steam/EAuthSessionGuardType\<close> is not
  among the sources. The six challenge types of the spec, which the \<^verbatim>\<open>switch\<close> names
  (\<open>NoneG\<close> is the member \<^verbatim>\<open>None\<close>), and \<open>UnknownGuard n\<close> for any other value, which
  reaches the \<^verbatim>\<open>default\<close> branch.
\<close>

datatype EAuthSessionGuardType =
    NoneG | EmailCode | DeviceCode | DeviceConfirmation | EmailConfirmation | MachineToken
  | UnknownGuard nat

text \<open>
  Modelled from the spec: the enumeration \<^verbatim>\<open>enums-steam/EAuthTokenPlatformType\<close> is not
  among the sources; the three platform types.
\<close>

datatype EAuthTokenPlatformType = SteamClient | WebBrowser | MobileApp

datatype error =
    NotValidSteamToken            \<comment> \<open>'Not a valid Steam access token'\<close>
  | TokenDifferentAccount         \<comment> \<open>'Token is for a different account. ...'\<close>
  | AccessTokenDifferentAccount   \<comment> \<open>'This access token belongs to a different account from the set refresh token.'\<close>
  | RefreshTokenDifferentAccount  \<comment> \<open>'This refresh token belongs to a different account from the set access token.'\<close>
  | NotStarted                    \<comment> \<open>'Login session has not been started yet'\<close>
  | UnknownGuardType EAuthSessionGuardType  \<comment> \<open>'Unknown auth session guard type ...'\<close>
  | ActionUnknown                 \<comment> \<open>'Login requires action, but we can't tell what kind of action is required'\<close>
  | NoGuardCodeNeeded             \<comment> \<open>'No Steam Guard code is needed for this login attempt'\<close>
  | RefreshTokenRequired          \<comment> \<open>'A refresh token is required to get web cookies'\<close>
  | MalformedLoginResponse        \<comment> \<open>'Malformed login response'\<close>
  | NoSetCookieHeader             \<comment> \<open>'No Set-Cookie header in result'\<close>
  | NoSteamLoginSecureCookie      \<comment> \<open>'No steamLoginSecure cookie in result'\<close>
  | EResultError EResult          \<comment> \<open>an error carrying an \<^verbatim>\<open>eresult\<close> property\<close>
  | JwtDecodeError                \<comment> \<open>whatever \<^verbatim>\<open>decodeJwt\<close> throws\<close>
  | TypeError                     \<comment> \<open>a property read on \<^verbatim>\<open>undefined\<close>\<close>
  | ExternalError string          \<comment> \<open>any other exception of a collaborator, without \<^verbatim>\<open>eresult\<close>\<close>

text \<open>\<^verbatim>\<open>ex.eresult\<close>: only errors built from a result code have the property.\<close>

fun eresult :: "error \<Rightarrow> EResult option" where
  "eresult (EResultError r) = Some r"
| "eresult _ = None"

text \<open>
  Modelled from the spec: the interface of an allowed confirmation (a guard challenge)
  is not among the sources; its type and its optional message.
\<close>

record AllowedConfirmation =
  type :: EAuthSessionGuardType
  message :: "string option"

text \<open>
  Modelled from the spec: \<^verbatim>\<open>StartAuthSessionWithCredentialsResponse\<close> of
  \<^verbatim>\<open>interfaces-internal\<close> is not among the sources; the four properties the class
  reads (client id, account identifier, poll interval in seconds, allowed confirmations).
\<close>

record StartAuthSessionWithCredentialsResponse =
  clientId :: string
  steamId :: string
  pollInterval :: int
  allowedConfirmations :: "AllowedConfirmation list"

text \<open>
  Modelled from the spec: the interface of the poll response is not among the sources;
  the five properties \<^verbatim>\<open>_doPoll\<close> reads.
\<close>

record PollResponse =
  newClientId :: "string option"
  poll_hadRemoteInteraction :: bool
  poll_accountName :: "string option"
  poll_accessToken :: "string option"
  poll_refreshToken :: "string option"

datatype event =
    Debug string | Polling | Timeout | RemoteInteraction | Authenticated | ErrorEvent error

datatype call =
    Call_encryptPassword string string
  | Call_startSessionWithCredentials string
  | Call_pollLoginStatus "StartAuthSessionWithCredentialsResponse option"
  | Call_submitSteamGuardCode string EAuthSessionGuardType
  | Call_checkMachineAuthOrSendCodeEmail "string option"

record LoginSession =
  loginTimeout :: int
  accountName :: "string option"
  accessToken :: "string option"            \<comment> \<open>\<^verbatim>\<open>_accessToken\<close>\<close>
  refreshToken :: "string option"           \<comment> \<open>\<^verbatim>\<open>_refreshToken\<close>\<close>
  platformType :: EAuthTokenPlatformType
  steamGuardCode :: "string option"
  steamGuardMachineToken :: "string option"
  startSessionResponse :: "StartAuthSessionWithCredentialsResponse option"
  hadRemoteInteraction :: bool              \<comment> \<open>\<^verbatim>\<open>undefined\<close> and \<^verbatim>\<open>false\<close> are both \<open>False\<close>: only its truth is read\<close>
  pollingStartedTime :: "int option"
  pollTimer :: "nat option"                 \<comment> \<open>the handle \<^verbatim>\<open>setTimeout\<close> returned\<close>
  pollingCanceled :: bool                   \<comment> \<open>as \<open>hadRemoteInteraction\<close>\<close>
  timers :: "(nat \<times> int) list"            \<comment> \<open>runtime: armed timers (handle, delay in ms), all running \<^verbatim>\<open>_doPoll\<close>\<close>
  nextTimer :: nat                          \<comment> \<open>runtime: the next fresh timer handle\<close>
  immediates :: nat                         \<comment> \<open>runtime: queued \<^verbatim>\<open>setImmediate(() => this._doPoll())\<close>\<close>
  inflight :: nat                           \<comment> \<open>runtime: \<^verbatim>\<open>_doPoll\<close> invocations awaiting their poll call\<close>
  emitted :: "event list"                   \<comment> \<open>EventEmitter: every \<^verbatim>\<open>emit\<close>, oldest first\<close>
  calls :: "call list"                      \<comment> \<open>every call made to \<^verbatim>\<open>_handler\<close>, oldest first\<close>

text \<open>
  \<^verbatim>\<open>helpers.decodeJwt\<close> and the \<^verbatim>\<open>steamid\<close> package are not among the sources; they are
  parameters. \<open>decodeJwt h t\<close> is \<open>Some sub\<close> when \<^verbatim>\<open>decodeJwt(t)\<close> returns an object whose
  \<^verbatim>\<open>sub\<close> is that string and \<open>None\<close> when it throws; \<open>newSteamID h sub\<close> holds when
  \<^verbatim>\<open>new SteamID(sub)\<close> does not throw.
\<close>

record helpers =
  decodeJwt :: "string \<Rightarrow> string option"
  newSteamID :: "string \<Rightarrow> bool"

section \<open>Truthiness\<close>

text \<open>JavaScript's \<^verbatim>\<open>!x\<close> on an optional string: \<^verbatim>\<open>undefined\<close> and the empty string are falsy.\<close>

fun truthy :: "string option \<Rightarrow> bool" where
  "truthy None = False"
| "truthy (Some s) = (s \<noteq> [])"

text \<open>On an optional number: \<^verbatim>\<open>undefined\<close> and 0 are falsy.\<close>

fun truthy_num :: "int option \<Rightarrow> bool" where
  "truthy_num None = False"
| "truthy_num (Some n) = (n \<noteq> 0)"

section \<open>Token setters\<close>

text \<open>
  \<^verbatim>\<open>set accessToken(token)\<close>, lines 70-95. The result is \<open>Inl e\<close> when the setter throws
  \<open>e\<close>; the second component is the session afterwards.
\<close>

definition set_accessToken ::
  "helpers \<Rightarrow> LoginSession \<Rightarrow> string option \<Rightarrow> (error + unit) \<times> LoginSession" where
  "set_accessToken h s token =
     (if \<not> truthy token then (Inr (), s\<lparr>accessToken := token\<rparr>)
      else case decodeJwt h (the token) of
        None \<Rightarrow> (Inl JwtDecodeError, s)
      | Some sub \<Rightarrow>
          if \<not> newSteamID h sub then (Inl NotValidSteamToken, s)
          else if (case startSessionResponse s of
                     None \<Rightarrow> False
                   | Some r \<Rightarrow> steamId r \<noteq> [] \<and> sub \<noteq> steamId r)
            then (Inl TokenDifferentAccount, s)
          else if truthy (refreshToken s) then
            (case decodeJwt h (the (refreshToken s)) of
               None \<Rightarrow> (Inl JwtDecodeError, s)
             | Some rsub \<Rightarrow>
                 if rsub \<noteq> sub then (Inl AccessTokenDifferentAccount, s)
                 else (Inr (), s\<lparr>accessToken := token\<rparr>))
          else (Inr (), s\<lparr>accessToken := token\<rparr>))"

text \<open>\<^verbatim>\<open>set refreshToken(token)\<close>, lines 97-122.\<close>

definition set_refreshToken ::
  "helpers \<Rightarrow> LoginSession \<Rightarrow> string option \<Rightarrow> (error + unit) \<times> LoginSession" where
  "set_refreshToken h s token =
     (if \<not> truthy token then (Inr (), s\<lparr>refreshToken := token\<rparr>)
      else case decodeJwt h (the token) of
        None \<Rightarrow> (Inl JwtDecodeError, s)
      | Some sub \<Rightarrow>
          if \<not> newSteamID h sub then (Inl NotValidSteamToken, s)
          else if (case startSessionResponse s of
                     None \<Rightarrow> False
                   | Some r \<Rightarrow> steamId r \<noteq> [] \<and> sub \<noteq> steamId r)
            then (Inl TokenDifferentAccount, s)
          else if truthy (accessToken s) then
            (case decodeJwt h (the (accessToken s)) of
               None \<Rightarrow> (Inl JwtDecodeError, s)
             | Some asub \<Rightarrow>
                 if asub \<noteq> sub then (Inl RefreshTokenDifferentAccount, s)
                 else (Inr (), s\<lparr>refreshToken := token\<rparr>))
          else (Inr (), s\<lparr>refreshToken := token\<rparr>))"

section \<open>The runtime: events, immediates, timers\<close>

text \<open>
  \<^verbatim>\<open>this.emit(...)\<close>: the event is appended to the log. (Whether a listener is
  registered is outside the model.)
\<close>

definition emit :: "event \<Rightarrow> LoginSession \<Rightarrow> LoginSession" where
  "emit e s = s\<lparr>emitted := emitted s @ [e]\<rparr>"

text \<open>\<^verbatim>\<open>setImmediate(() => this._doPoll())\<close>: one more queued callback.\<close>

definition setImmediate_doPoll :: "LoginSession \<Rightarrow> LoginSession" where
  "setImmediate_doPoll s = s\<lparr>immediates := Suc (immediates s)\<rparr>"

text \<open>\<^verbatim>\<open>setTimeout(() => this._doPoll(), delay)\<close>: arms a timer under a fresh handle.\<close>

definition setTimeout_doPoll :: "int \<Rightarrow> LoginSession \<Rightarrow> nat \<times> LoginSession" where
  "setTimeout_doPoll delay s =
     (nextTimer s, s\<lparr>timers := timers s @ [(nextTimer s, delay)], nextTimer := Suc (nextTimer s)\<rparr>)"

text \<open>
  \<^verbatim>\<open>clearTimeout(t)\<close>: disarms the timer if it is armed; no effect on \<^verbatim>\<open>undefined\<close> or
  on a handle that has fired or been cleared.
\<close>

definition clearTimeout :: "nat option \<Rightarrow> LoginSession \<Rightarrow> LoginSession" where
  "clearTimeout t s =
     (case t of None \<Rightarrow> s | Some k \<Rightarrow> s\<lparr>timers := filter (\<lambda>p. fst p \<noteq> k) (timers s)\<rparr>)"

text \<open>A timer is pending when its handle is among the armed ones.\<close>

definition pending :: "LoginSession \<Rightarrow> nat \<Rightarrow> bool" where
  "pending s k = (k \<in> fst ` set (timers s))"

section \<open>The polling loop\<close>

text \<open>\<^verbatim>\<open>cancelLoginAttempt()\<close>, lines 357-366: the returned boolean and the session afterwards.\<close>

definition cancelLoginAttempt :: "LoginSession \<Rightarrow> bool \<times> LoginSession" where
  "cancelLoginAttempt s =
     (let s1 = s\<lparr>pollingCanceled := True\<rparr>
      in case pollTimer s1 of
           Some k \<Rightarrow> (True, clearTimeout (Some k) s1)
         | None \<Rightarrow> (False, s1))"

text \<open>
  \<^verbatim>\<open>_doPoll()\<close> is an async function with one \<^verbatim>\<open>await\<close>, at line 257. \<open>doPoll_begin\<close> is
  the part before it (lines 236-257): \<open>now1\<close> is what \<^verbatim>\<open>Date.now()\<close> returns at line 244
  and \<open>now2\<close> what it returns at line 248. The boolean tells whether the poll call was
  issued, so that the invocation is now awaiting its response.
\<close>

definition doPoll_begin :: "LoginSession \<Rightarrow> int \<Rightarrow> int \<Rightarrow> bool \<times> LoginSession" where
  "doPoll_begin s now1 now2 =
     (if pollingCanceled s then (False, s)
      else
        let s1 = clearTimeout (pollTimer s) s;
            s2 = (if \<not> truthy_num (pollingStartedTime s1)
                  then emit Polling (s1\<lparr>pollingStartedTime := Some now1\<rparr>)
                  else s1);
            totalPollingTime = now2 - the (pollingStartedTime s2)
        in if totalPollingTime \<ge> loginTimeout s2
           then (False, snd (cancelLoginAttempt (emit Timeout s2)))
           else (True, s2\<lparr>calls := calls s2 @ [Call_pollLoginStatus (startSessionResponse s2)]\<rparr>))"

text \<open>
  Lines 264-269: the client id and the remote-interaction flag follow the poll response.
\<close>

definition applyPollResponse ::
  "LoginSession \<Rightarrow> StartAuthSessionWithCredentialsResponse \<Rightarrow> PollResponse \<Rightarrow> LoginSession" where
  "applyPollResponse s r pollResponse =
     (let s2 = s\<lparr>startSessionResponse :=
                  Some (r\<lparr>clientId := (if truthy (newClientId pollResponse)
                                       then the (newClientId pollResponse)
                                       else clientId r)\<rparr>)\<rparr>
      in if poll_hadRemoteInteraction pollResponse \<and> \<not> hadRemoteInteraction s2
         then emit RemoteInteraction (s2\<lparr>hadRemoteInteraction := True\<rparr>)
         else s2)"

text \<open>
  Lines 272-275: the account name and both tokens are committed, the tokens through
  their setters; \<open>Some e\<close> when a setter throws \<open>e\<close>.
\<close>

definition commitTokens ::
  "helpers \<Rightarrow> LoginSession \<Rightarrow> PollResponse \<Rightarrow> error option \<times> LoginSession" where
  "commitTokens h s pollResponse =
     (let s4 = s\<lparr>accountName := poll_accountName pollResponse\<rparr>
      in case set_accessToken h s4 (poll_accessToken pollResponse) of
           (Inl e, s5) \<Rightarrow> (Some e, s5)
         | (Inr _, s5) \<Rightarrow>
             (case set_refreshToken h s5 (poll_refreshToken pollResponse) of
                (Inl e, s6) \<Rightarrow> (Some e, s6)
              | (Inr _, s6) \<Rightarrow> (None, emit Authenticated s6)))"

text \<open>Line 277: the next tick is scheduled and its handle stored.\<close>

definition scheduleNextPoll ::
  "StartAuthSessionWithCredentialsResponse \<Rightarrow> LoginSession \<Rightarrow> LoginSession" where
  "scheduleNextPoll r s =
     (let (k, s4) = setTimeout_doPoll (pollInterval r * 1000) s
      in s4\<lparr>pollTimer := Some k\<rparr>)"

text \<open>
  \<open>doPoll_resume\<close> is the part after the \<^verbatim>\<open>await\<close> (lines 258-278), run when the poll call
  settles: \<open>Inl ex\<close> when it rejected with \<open>ex\<close>, \<open>Inr pollResponse\<close> when it resolved.
  The first component is \<open>Some e\<close> when the invocation ends by throwing \<open>e\<close> (a setter
  refused a token, or there is no start response to update).
\<close>

definition doPoll_resume ::
  "helpers \<Rightarrow> LoginSession \<Rightarrow> error + PollResponse \<Rightarrow> error option \<times> LoginSession" where
  "doPoll_resume h s outcome =
     (case outcome of
        Inl ex \<Rightarrow> (None, emit (ErrorEvent ex) s)
      | Inr pollResponse \<Rightarrow>
          let s1 = emit (Debug ''poll response'') s
          in (case startSessionResponse s1 of
               None \<Rightarrow> (Some TypeError, s1)
             | Some r \<Rightarrow>
                 let s3 = applyPollResponse s1 r pollResponse
                 in if truthy (poll_accessToken pollResponse) then commitTokens h s3 pollResponse
                    else if \<not> pollingCanceled s3 then (None, scheduleNextPoll r s3)
                    else (None, s3)))"

section \<open>Guard resolution\<close>

text \<open>
  The \<^verbatim>\<open>AuthenticationClient\<close> is a collaborator outside the sources; it is a
  parameter. Each of its methods answers as a function of the number of calls the
  session has made to the client so far, so any sequence of answers can be expressed.
  \<open>Inl ex\<close> is a rejection with \<open>ex\<close>. (The answer to a poll call comes with the step
  that delivers it.)
\<close>

record AuthenticationClient =
  h_encryptPassword :: "nat \<Rightarrow> error + unit"
  h_startSessionWithCredentials :: "nat \<Rightarrow> error + StartAuthSessionWithCredentialsResponse"
  h_submitSteamGuardCode :: "nat \<Rightarrow> error + unit"
  h_checkMachineAuthOrSendCodeEmail :: "nat \<Rightarrow> error + EResult"

text \<open>\<^verbatim>\<open>allowedConfirmations.some(c => c.type == t)\<close>\<close>

definition some_type :: "EAuthSessionGuardType \<Rightarrow> AllowedConfirmation list \<Rightarrow> bool" where
  "some_type t cs = list_ex (\<lambda>c. type c = t) cs"

text \<open>\<^verbatim>\<open>submitSteamGuardCode(authCode)\<close>, lines 337-355.\<close>

definition submitSteamGuardCode ::
  "AuthenticationClient \<Rightarrow> LoginSession \<Rightarrow> string \<Rightarrow> (error + unit) \<times> LoginSession" where
  "submitSteamGuardCode H s authCode =
     (case startSessionResponse s of
        None \<Rightarrow> (Inl NotStarted, s)
      | Some r \<Rightarrow>
          let s1 = emit (Debug ''submitting steam guard code'') s;
              needsEmailCode = some_type EmailCode (allowedConfirmations r);
              needsTotpCode = some_type DeviceCode (allowedConfirmations r)
          in if \<not> needsEmailCode \<and> \<not> needsTotpCode then (Inl NoGuardCodeNeeded, s1)
             else
               let s2 = s1\<lparr>calls := calls s1 @
                          [Call_submitSteamGuardCode authCode
                             (if needsEmailCode then EmailCode else DeviceCode)]\<rparr>
               in (case h_submitSteamGuardCode H (length (calls s1)) of
                     Inl ex \<Rightarrow> (Inl ex, s2)
                   | Inr _ \<Rightarrow> (Inr (), setImmediate_doPoll s2)))"

text \<open>
  The first half of both \<^verbatim>\<open>_attempt...CodeAuth\<close> methods (lines 285-295 and 321-331),
  with the result code that is swallowed as a parameter: \<open>Some (Inr True)\<close> is
  \<^verbatim>\<open>return true\<close>, \<open>Some (Inl ex)\<close> is \<^verbatim>\<open>throw ex\<close>, \<open>None\<close> means that control goes on
  below the \<^verbatim>\<open>if\<close>.
\<close>

definition trySuppliedCode ::
  "EResult \<Rightarrow> AuthenticationClient \<Rightarrow> LoginSession \<Rightarrow> (error + bool) option \<times> LoginSession" where
  "trySuppliedCode wrongCode H s =
     (if truthy (steamGuardCode s) then
        (case submitSteamGuardCode H s (the (steamGuardCode s)) of
           (Inr _, s1) \<Rightarrow> (Some (Inr True), s1)
         | (Inl ex, s1) \<Rightarrow>
             if eresult ex \<noteq> Some wrongCode then (Some (Inl ex), s1) else (None, s1))
      else (None, s))"

text \<open>The machine-token part of \<^verbatim>\<open>_attemptEmailCodeAuth\<close>, lines 297-317.\<close>

definition machineTokenAuth ::
  "AuthenticationClient \<Rightarrow> LoginSession \<Rightarrow> (error + bool) \<times> LoginSession" where
  "machineTokenAuth H s =
     (case startSessionResponse s of
        None \<Rightarrow> (Inl TypeError, s)
      | Some r \<Rightarrow>
          if some_type MachineToken (allowedConfirmations r) then
            (let s1 = s\<lparr>calls := calls s @
                        [Call_checkMachineAuthOrSendCodeEmail (steamGuardMachineToken s)]\<rparr>
             in case h_checkMachineAuthOrSendCodeEmail H (length (calls s)) of
                  Inl ex \<Rightarrow> (Inl ex, s1)
                | Inr result \<Rightarrow>
                    if result = OK then (Inr True, setImmediate_doPoll s1)
                    else (Inr False, s1))
          else (Inr False, s))"

text \<open>\<^verbatim>\<open>_attemptEmailCodeAuth()\<close>, lines 284-318.\<close>

definition attemptEmailCodeAuth ::
  "AuthenticationClient \<Rightarrow> LoginSession \<Rightarrow> (error + bool) \<times> LoginSession" where
  "attemptEmailCodeAuth H s =
     (case trySuppliedCode InvalidLoginAuthCode H s of
        (Some r, s1) \<Rightarrow> (r, s1)
      | (None, s1) \<Rightarrow> machineTokenAuth H s1)"

text \<open>\<^verbatim>\<open>_attemptTotpCodeAuth()\<close>, lines 320-335.\<close>

definition attemptTotpCodeAuth ::
  "AuthenticationClient \<Rightarrow> LoginSession \<Rightarrow> (error + bool) \<times> LoginSession" where
  "attemptTotpCodeAuth H s =
     (case trySuppliedCode TwoFactorCodeMismatch H s of
        (Some r, s1) \<Rightarrow> (r, s1)
      | (None, s1) \<Rightarrow> (Inr False, s1))"

text \<open>
  Modelled from the spec: \<^verbatim>\<open>StartSessionResponse\<close> and
  \<^verbatim>\<open>StartSessionResponseValidAction\<close> of \<^verbatim>\<open>interfaces-external\<close> are not among the
  sources; the properties the class writes.
\<close>

record StartSessionResponseValidAction =
  action_type :: EAuthSessionGuardType
  detail :: "string option"

record StartSessionResponse =
  actionRequired :: bool
  validActions :: "StartSessionResponseValidAction list option"

text \<open>
  How the \<^verbatim>\<open>for\<close> loop of \<^verbatim>\<open>_processStartSessionResponse\<close> ends: by a \<^verbatim>\<open>return\<close>, by a
  \<^verbatim>\<open>throw\<close>, or by running off the end of the list with the actions collected.
\<close>

datatype loop_end =
    Returned StartSessionResponse
  | Thrown error
  | Completed "StartSessionResponseValidAction list"

text \<open>Lines 192-196: the action asking the user for the code of the challenge \<open>i\<close>.\<close>

definition code_action :: "AllowedConfirmation \<Rightarrow> StartSessionResponseValidAction" where
  "code_action i =
     \<lparr>action_type = type i, detail = (if truthy (message i) then message i else None)\<rparr>"

text \<open>
  The loop, lines 173-222, over the entries still to visit. The callbacks queued by
  \<^verbatim>\<open>setImmediate\<close> are counted in \<open>immediates\<close> and run by their own step of the event
  loop (\<open>step\<close> below).
\<close>

fun confirmations_loop ::
  "AuthenticationClient \<Rightarrow> AllowedConfirmation list \<Rightarrow> StartSessionResponseValidAction list \<Rightarrow>
   LoginSession \<Rightarrow> loop_end \<times> LoginSession" where
  "confirmations_loop H [] acts s = (Completed acts, s)"
| "confirmations_loop H (i # rest) acts s =
     (case type i of
        NoneG \<Rightarrow>
          (Returned \<lparr>actionRequired = False, validActions = None\<rparr>,
           setImmediate_doPoll (emit (Debug ''no guard required'') s))
      | EmailCode \<Rightarrow>
          (case attemptEmailCodeAuth H (emit (Debug ''email code required'') s) of
             (Inl ex, s1) \<Rightarrow> (Thrown ex, s1)
           | (Inr authResult, s1) \<Rightarrow>
               if authResult then (Returned \<lparr>actionRequired = False, validActions = None\<rparr>, s1)
               else confirmations_loop H rest (acts @ [code_action i]) s1)
      | DeviceCode \<Rightarrow>
          (case attemptTotpCodeAuth H (emit (Debug ''device code required'') s) of
             (Inl ex, s1) \<Rightarrow> (Thrown ex, s1)
           | (Inr authResult, s1) \<Rightarrow>
               if authResult then (Returned \<lparr>actionRequired = False, validActions = None\<rparr>, s1)
               else confirmations_loop H rest (acts @ [code_action i]) s1)
      | DeviceConfirmation \<Rightarrow>
          confirmations_loop H rest (acts @ [\<lparr>action_type = type i, detail = None\<rparr>])
            (setImmediate_doPoll (emit (Debug ''device or email confirmation guard required'') s))
      | EmailConfirmation \<Rightarrow>
          confirmations_loop H rest (acts @ [\<lparr>action_type = type i, detail = None\<rparr>])
            (setImmediate_doPoll (emit (Debug ''device or email confirmation guard required'') s))
      | MachineToken \<Rightarrow> confirmations_loop H rest acts s
      | UnknownGuard n \<Rightarrow> (Thrown (UnknownGuardType (type i)), s))"

text \<open>
  What follows the loop (lines 224-232), together with the way a \<^verbatim>\<open>return\<close> or a
  \<^verbatim>\<open>throw\<close> inside the loop leaves the method.
\<close>

definition after_loop ::
  "loop_end \<times> LoginSession \<Rightarrow> (error + StartSessionResponse) \<times> LoginSession" where
  "after_loop e =
     (case e of
        (Returned res, s) \<Rightarrow> (Inr res, s)
      | (Thrown ex, s) \<Rightarrow> (Inl ex, s)
      | (Completed acts, s) \<Rightarrow>
          if length acts = 0 then (Inl ActionUnknown, s)
          else (Inr \<lparr>actionRequired = True, validActions = Some acts\<rparr>, s))"

text \<open>\<^verbatim>\<open>_processStartSessionResponse()\<close>, lines 168-233.\<close>

definition processStartSessionResponse ::
  "AuthenticationClient \<Rightarrow> LoginSession \<Rightarrow> (error + StartSessionResponse) \<times> LoginSession" where
  "processStartSessionResponse H s =
     (let s1 = s\<lparr>pollingCanceled := False\<rparr>
      in case startSessionResponse s1 of
           None \<Rightarrow> (Inl TypeError, s1)
         | Some r \<Rightarrow> after_loop (confirmations_loop H (allowedConfirmations r) [] s1))"

text \<open>
  Modelled from the spec: \<^verbatim>\<open>StartLoginSessionWithCredentialsDetails\<close> of
  \<^verbatim>\<open>interfaces-external\<close> is not among the sources; the properties the session itself
  uses (the others are only forwarded to the client).
\<close>

record StartLoginSessionWithCredentialsDetails =
  d_accountName :: string
  d_password :: string
  d_steamGuardCode :: "string option"
  d_steamGuardMachineToken :: "string option"

text \<open>
  \<^verbatim>\<open>startWithCredentials(details)\<close> up to its last statement (lines 147-162): the two
  calls to the client, and the start response stored.
\<close>

definition startWithCredentials_request ::
  "AuthenticationClient \<Rightarrow> LoginSession \<Rightarrow> StartLoginSessionWithCredentialsDetails \<Rightarrow>
   (error + unit) \<times> LoginSession" where
  "startWithCredentials_request H s details =
     (let s1 = s\<lparr>hadRemoteInteraction := False,
                 steamGuardCode := d_steamGuardCode details,
                 steamGuardMachineToken := d_steamGuardMachineToken details\<rparr>;
          s2 = s1\<lparr>calls := calls s1 @
                     [Call_encryptPassword (d_accountName details) (d_password details)]\<rparr>
      in case h_encryptPassword H (length (calls s1)) of
           Inl ex \<Rightarrow> (Inl ex, s2)
         | Inr _ \<Rightarrow>
             let s3 = s2\<lparr>calls := calls s2 @
                        [Call_startSessionWithCredentials (d_accountName details)]\<rparr>
             in (case h_startSessionWithCredentials H (length (calls s2)) of
                   Inl ex \<Rightarrow> (Inl ex, s3)
                 | Inr resp \<Rightarrow>
                     (Inr (), emit (Debug ''start session response'')
                                (s3\<lparr>startSessionResponse := Some resp\<rparr>))))"

text \<open>\<^verbatim>\<open>startWithCredentials(details)\<close>, lines 146-166.\<close>

definition startWithCredentials ::
  "AuthenticationClient \<Rightarrow> LoginSession \<Rightarrow> StartLoginSessionWithCredentialsDetails \<Rightarrow>
   (error + StartSessionResponse) \<times> LoginSession" where
  "startWithCredentials H s details =
     (case startWithCredentials_request H s details of
        (Inl ex, s1) \<Rightarrow> (Inl ex, s1)
      | (Inr _, s1) \<Rightarrow> processStartSessionResponse H s1)"

section \<open>Web cookies\<close>














section \<open>The session as a state machine\<close>

text \<open>The constructor, lines 45-52.\<close>

definition new_LoginSession :: "EAuthTokenPlatformType option \<Rightarrow> LoginSession" where
  "new_LoginSession p =
     \<lparr>loginTimeout = 30000, accountName = None, accessToken = None, refreshToken = None,
      platformType = (case p of None \<Rightarrow> WebBrowser | Some t \<Rightarrow> t),
      steamGuardCode = None, steamGuardMachineToken = None, startSessionResponse = None,
      hadRemoteInteraction = False, pollingStartedTime = None, pollTimer = None,
      pollingCanceled = False, timers = [], nextTimer = 0, immediates = 0, inflight = 0,
      emitted = [], calls = []\<rparr>"

text \<open>
  What can happen to a session: a call of a public operation, or a turn of the event
  loop that runs a queued callback, fires an armed timer, or delivers the outcome of a
  poll call in flight.
\<close>

datatype action =
    StartWithCredentials StartLoginSessionWithCredentialsDetails
  | SubmitSteamGuardCode string
  | CancelLoginAttempt
  | SetAccessToken "string option"
  | SetRefreshToken "string option"
  | SetLoginTimeout int
  | RunImmediate int int
  | FireTimer nat int int
  | PollSettles "error + PollResponse"

definition awaiting :: "bool \<times> LoginSession \<Rightarrow> LoginSession" where
  "awaiting r = (if fst r then (snd r)\<lparr>inflight := Suc (inflight (snd r))\<rparr> else snd r)"

text \<open>
  One step; \<open>None\<close> when the event loop has no such callback, timer or call. A call of
  \<^verbatim>\<open>startWithCredentials\<close> or \<^verbatim>\<open>submitSteamGuardCode\<close> is one step: it runs up to its
  return with the answers of the client taken from the parameter, and the callbacks it
  queued run in later steps.
\<close>

fun step ::
  "helpers \<Rightarrow> AuthenticationClient \<Rightarrow> LoginSession \<Rightarrow> action \<Rightarrow> LoginSession option" where
  "step h H s (StartWithCredentials details) = Some (snd (startWithCredentials H s details))"
| "step h H s (SubmitSteamGuardCode code) = Some (snd (submitSteamGuardCode H s code))"
| "step h H s CancelLoginAttempt = Some (snd (cancelLoginAttempt s))"
| "step h H s (SetAccessToken t) = Some (snd (set_accessToken h s t))"
| "step h H s (SetRefreshToken t) = Some (snd (set_refreshToken h s t))"
| "step h H s (SetLoginTimeout n) = Some (s\<lparr>loginTimeout := n\<rparr>)"
| "step h H s (RunImmediate now1 now2) =
     (if immediates s = 0 then None
      else Some (awaiting (doPoll_begin (s\<lparr>immediates := immediates s - 1\<rparr>) now1 now2)))"
| "step h H s (FireTimer k now1 now2) =
     (if \<not> pending s k then None
      else Some (awaiting (doPoll_begin
                   (s\<lparr>timers := filter (\<lambda>p. fst p \<noteq> k) (timers s)\<rparr>) now1 now2)))"
| "step h H s (PollSettles outcome) =
     (if inflight s = 0 then None
      else Some (snd (doPoll_resume h (s\<lparr>inflight := inflight s - 1\<rparr>) outcome)))"

fun run ::
  "helpers \<Rightarrow> AuthenticationClient \<Rightarrow> LoginSession \<Rightarrow> action list \<Rightarrow> LoginSession option" where
  "run h H s [] = Some s"
| "run h H s (a # as) = (case step h H s a of None \<Rightarrow> None | Some s1 \<Rightarrow> run h H s1 as)"

text \<open>The subject a token slot carries: none when the slot is empty or does not decode.\<close>

definition subject :: "helpers \<Rightarrow> string option \<Rightarrow> string option" where
  "subject h t = (if truthy t then decodeJwt h (the t) else None)"

text \<open>
  The account identifier the start response records: none without a start response, and
  none when its identifier is empty (the guard of lines 82 and 109).
\<close>

definition recorded_account :: "LoginSession \<Rightarrow> string option" where
  "recorded_account s =
     (case startSessionResponse s of
        None \<Rightarrow> None
      | Some r \<Rightarrow> if steamId r = [] then None else Some (steamId r))"

text \<open>
  The consistency of the tokens, as the data model states it: two set tokens carry the
  same subject, and a set token carries the account identifier of the start response
  when there is one.
\<close>

definition tokens_consistent :: "helpers \<Rightarrow> LoginSession \<Rightarrow> bool" where
  "tokens_consistent h s =
     ((if truthy (accessToken s) \<and> truthy (refreshToken s)
       then subject h (accessToken s) = subject h (refreshToken s) else True) \<and>
      (if truthy (accessToken s) \<and> recorded_account s \<noteq> None
       then subject h (accessToken s) = recorded_account s else True) \<and>
      (if truthy (refreshToken s) \<and> recorded_account s \<noteq> None
       then subject h (refreshToken s) = recorded_account s else True))"

text \<open>
  The start timestamp in force during a tick: the recorded one, or what the clock shows
  at line 244 when none is recorded yet (the first tick).
\<close>

definition pollingStart :: "LoginSession \<Rightarrow> int \<Rightarrow> int" where
  "pollingStart s now1 =
     (if truthy_num (pollingStartedTime s) then the (pollingStartedTime s) else now1)"

text \<open>The fields of the polling loop and of the runtime, apart from the event log.\<close>

definition polling_state ::
  "LoginSession \<Rightarrow> (int option \<times> nat option \<times> bool) \<times> ((nat \<times> int) list \<times> nat \<times> nat \<times> call list)" where
  "polling_state s =
     ((pollingStartedTime s, pollTimer s, pollingCanceled s),
      (timers s, nextTimer s, immediates s, calls s))"

text \<open>What guard resolution reads of the session.\<close>

definition guard_inputs ::
  "LoginSession \<Rightarrow> StartAuthSessionWithCredentialsResponse option \<times> string option \<times> string option" where
  "guard_inputs s = (startSessionResponse s, steamGuardCode s, steamGuardMachineToken s)"

section \<open>Fixtures\<close>

text \<open>
  A concrete decoder for the examples: two tokens of two accounts; any non-empty string
  is accepted as an account identifier.
\<close>

definition example_helpers :: helpers where
  "example_helpers =
     \<lparr>decodeJwt = (\<lambda>t. if t = ''jwtA'' then Some ''76561198000000001''
                       else if t = ''jwtB'' then Some ''76561198000000002''
                       else None),
      newSteamID = (\<lambda>sub. sub \<noteq> [])\<rparr>"

text \<open>A start response for the account \<open>acc\<close> that allows the given confirmations.\<close>

definition example_response ::
  "string \<Rightarrow> EAuthSessionGuardType list \<Rightarrow> StartAuthSessionWithCredentialsResponse" where
  "example_response acc ts =
     \<lparr>clientId = ''c1'', steamId = acc, pollInterval = 5,
      allowedConfirmations = map (\<lambda>t. \<lparr>type = t, message = None\<rparr>) ts\<rparr>"

text \<open>
  A client that accepts every password, starts every session with \<open>resp\<close>, and answers
  every code submission with \<open>sub\<close> and every machine-token check with \<open>chk\<close>.
\<close>

definition example_client ::
  "StartAuthSessionWithCredentialsResponse \<Rightarrow> error + unit \<Rightarrow> error + EResult \<Rightarrow>
   AuthenticationClient" where
  "example_client resp sub chk =
     \<lparr>h_encryptPassword = (\<lambda>n. Inr ()),
      h_startSessionWithCredentials = (\<lambda>n. Inr resp),
      h_submitSteamGuardCode = (\<lambda>n. sub),
      h_checkMachineAuthOrSendCodeEmail = (\<lambda>n. chk)\<rparr>"

text \<open>Credentials with the given guard code and machine token, if any.\<close>

definition example_details ::
  "string option \<Rightarrow> string option \<Rightarrow> StartLoginSessionWithCredentialsDetails" where
  "example_details code machineToken =
     \<lparr>d_accountName = ''alice'', d_password = ''secret'', d_steamGuardCode = code,
      d_steamGuardMachineToken = machineToken\<rparr>"

text \<open>A poll response with the given access and refresh tokens, if any.\<close>

definition example_poll :: "string option \<Rightarrow> string option \<Rightarrow> PollResponse" where
  "example_poll a r =
     \<lparr>newClientId = None, poll_hadRemoteInteraction = False, poll_accountName = Some ''alice'',
      poll_accessToken = a, poll_refreshToken = r\<rparr>"

lemmas model_defs =
  new_LoginSession_def startWithCredentials_def startWithCredentials_request_def
  processStartSessionResponse_def after_loop_def emit_def setImmediate_doPoll_def
  setTimeout_doPoll_def clearTimeout_def pending_def cancelLoginAttempt_def doPoll_begin_def
  doPoll_resume_def applyPollResponse_def commitTokens_def scheduleNextPoll_def awaiting_def
  set_accessToken_def set_refreshToken_def
  submitSteamGuardCode_def some_type_def attemptEmailCodeAuth_def attemptTotpCodeAuth_def
  trySuppliedCode_def machineTokenAuth_def code_action_def

lemmas example_defs =
  example_helpers_def example_response_def example_client_def example_details_def
  example_poll_def

section \<open>Token consistency\<close>

text \<open>
  C1. Take a well-formed candidate token: non-empty, decoded to the subject \<open>sub\<close>, and
  \<open>sub\<close> accepted as an account identifier. If the start response records an account
  identifier other than \<open>sub\<close>, or the refresh token is set and carries a subject other
  than \<open>sub\<close>, then assigning the candidate as access token throws one of the two
  mismatch errors and leaves the session, hence the stored access token, as it was. The
  same holds for assigning it as refresh token against the access token.
\<close>

theorem C1_mismatch:
  assumes "truthy token" and "decodeJwt h (the token) = Some sub" and "newSteamID h sub"
  shows "((recorded_account s = Some acc \<and> acc \<noteq> sub) \<or>
          (subject h (refreshToken s) = Some osub \<and> osub \<noteq> sub) \<longrightarrow>
            fst (set_accessToken h s token)
              \<in> {Inl TokenDifferentAccount, Inl AccessTokenDifferentAccount} \<and>
            snd (set_accessToken h s token) = s) \<and>
         ((recorded_account s = Some acc \<and> acc \<noteq> sub) \<or>
          (subject h (accessToken s) = Some osub \<and> osub \<noteq> sub) \<longrightarrow>
            fst (set_refreshToken h s token)
              \<in> {Inl TokenDifferentAccount, Inl RefreshTokenDifferentAccount} \<and>
            snd (set_refreshToken h s token) = s)"
  using assms
  by (auto simp: set_accessToken_def set_refreshToken_def recorded_account_def subject_def
           split: option.splits if_splits)

theorem C1_mismatch_witness:
  "truthy (Some ''jwtA'') \<and>
   decodeJwt example_helpers (the (Some ''jwtA'')) = Some ''76561198000000001'' \<and>
   newSteamID example_helpers ''76561198000000001'' \<and>
   subject example_helpers
     (refreshToken ((new_LoginSession None)\<lparr>accessToken := Some ''jwtB'', refreshToken := Some ''jwtB''\<rparr>))
     = Some ''76561198000000002'' \<and>
   subject example_helpers
     (accessToken ((new_LoginSession None)\<lparr>accessToken := Some ''jwtB'', refreshToken := Some ''jwtB''\<rparr>))
     = Some ''76561198000000002'' \<and>
   ''76561198000000002'' \<noteq> ''76561198000000001'' \<and>
   set_accessToken example_helpers
     ((new_LoginSession None)\<lparr>accessToken := Some ''jwtB'', refreshToken := Some ''jwtB''\<rparr>)
     (Some ''jwtA'')
     = (Inl AccessTokenDifferentAccount,
        (new_LoginSession None)\<lparr>accessToken := Some ''jwtB'', refreshToken := Some ''jwtB''\<rparr>) \<and>
   set_refreshToken example_helpers
     ((new_LoginSession None)\<lparr>accessToken := Some ''jwtB'', refreshToken := Some ''jwtB''\<rparr>)
     (Some ''jwtA'')
     = (Inl RefreshTokenDifferentAccount,
        (new_LoginSession None)\<lparr>accessToken := Some ''jwtB'', refreshToken := Some ''jwtB''\<rparr>)"
  using C1_mismatch [of "Some ''jwtA''" example_helpers "''76561198000000001''"
      "(new_LoginSession None)\<lparr>accessToken := Some ''jwtB'', refreshToken := Some ''jwtB''\<rparr>"
      "[]" "''76561198000000002''"]
  by (simp add: example_helpers_def subject_def new_LoginSession_def
        set_accessToken_def set_refreshToken_def)

text \<open>
  C9. Whether it returns or throws, assigning the access token leaves every field of the
  session other than the access-token slot as it was: the session afterwards is the
  session before with, at most, that slot replaced. Likewise the refresh-token setter
  and the refresh-token slot.
\<close>

theorem C9_setters_frame:
  "snd (set_accessToken h s token)
     = s\<lparr>accessToken := accessToken (snd (set_accessToken h s token))\<rparr> \<and>
   snd (set_refreshToken h s token)
     = s\<lparr>refreshToken := refreshToken (snd (set_refreshToken h s token))\<rparr>"
  by (auto simp: set_accessToken_def set_refreshToken_def split: option.splits)

subsection \<open>The consistency of the tokens through the operations\<close>

text \<open>
  Every step but \<^verbatim>\<open>startWithCredentials\<close> keeps the tokens consistent: the setters check
  the candidate against the other token and the recorded account, the poll loop commits
  tokens through the setters only, and nothing else touches the tokens or the account
  identifier of the start response.
\<close>

lemma tokens_consistent_cong:
  "accessToken s' = accessToken s \<Longrightarrow> refreshToken s' = refreshToken s \<Longrightarrow>
   recorded_account s' = recorded_account s \<Longrightarrow>
   tokens_consistent h s' = tokens_consistent h s"
  by (auto simp: tokens_consistent_def)

lemma set_accessToken_cases:
  "snd (set_accessToken h s t) = s \<or>
   (snd (set_accessToken h s t) = s\<lparr>accessToken := t\<rparr> \<and>
    (\<not> truthy t \<or>
     (recorded_account s \<in> {None, subject h t} \<and>
      (\<not> truthy (refreshToken s) \<or> subject h (refreshToken s) = subject h t))))"
  by (simp add: set_accessToken_def recorded_account_def subject_def split: option.splits)

lemma set_refreshToken_cases:
  "snd (set_refreshToken h s t) = s \<or>
   (snd (set_refreshToken h s t) = s\<lparr>refreshToken := t\<rparr> \<and>
    (\<not> truthy t \<or>
     (recorded_account s \<in> {None, subject h t} \<and>
      (\<not> truthy (accessToken s) \<or> subject h (accessToken s) = subject h t))))"
  by (simp add: set_refreshToken_def recorded_account_def subject_def split: option.splits)

lemma recorded_account_accessToken [simp]:
  "recorded_account (s\<lparr>accessToken := t\<rparr>) = recorded_account s"
  by (simp add: recorded_account_def)

lemma recorded_account_refreshToken [simp]:
  "recorded_account (s\<lparr>refreshToken := t\<rparr>) = recorded_account s"
  by (simp add: recorded_account_def)

lemma set_accessToken_consistent:
  assumes "tokens_consistent h s"
  shows "tokens_consistent h (snd (set_accessToken h s t))"
  using set_accessToken_cases [of h s t] assms
  by (auto simp: tokens_consistent_def)

lemma set_refreshToken_consistent:
  assumes "tokens_consistent h s"
  shows "tokens_consistent h (snd (set_refreshToken h s t))"
  using set_refreshToken_cases [of h s t] assms
  by (auto simp: tokens_consistent_def)

lemma cancelLoginAttempt_tokens:
  "accessToken (snd (cancelLoginAttempt s)) = accessToken s \<and>
   refreshToken (snd (cancelLoginAttempt s)) = refreshToken s \<and>
   startSessionResponse (snd (cancelLoginAttempt s)) = startSessionResponse s"
  by (simp add: cancelLoginAttempt_def clearTimeout_def Let_def split: option.splits)

lemma doPoll_begin_tokens:
  "accessToken (snd (doPoll_begin s a b)) = accessToken s \<and>
   refreshToken (snd (doPoll_begin s a b)) = refreshToken s \<and>
   startSessionResponse (snd (doPoll_begin s a b)) = startSessionResponse s"
  by (simp add: doPoll_begin_def cancelLoginAttempt_def clearTimeout_def emit_def Let_def
           split: option.splits)

lemma submitSteamGuardCode_tokens:
  "accessToken (snd (submitSteamGuardCode H s c)) = accessToken s \<and>
   refreshToken (snd (submitSteamGuardCode H s c)) = refreshToken s \<and>
   startSessionResponse (snd (submitSteamGuardCode H s c)) = startSessionResponse s"
  by (simp add: submitSteamGuardCode_def emit_def setImmediate_doPoll_def Let_def
           split: option.splits sum.splits)

lemma tokens_consistent_frame:
  "accessToken s' = accessToken s \<and> refreshToken s' = refreshToken s \<and>
   startSessionResponse s' = startSessionResponse s \<Longrightarrow>
   tokens_consistent h s' = tokens_consistent h s"
  by (rule tokens_consistent_cong) (simp_all add: recorded_account_def)

lemma emit_consistent: "tokens_consistent h (emit e s) = tokens_consistent h s"
  by (rule tokens_consistent_frame) (simp add: emit_def)

lemma applyPollResponse_consistent:
  assumes "startSessionResponse s = Some r"
  shows "tokens_consistent h (applyPollResponse s r pr) = tokens_consistent h s"
  by (rule tokens_consistent_cong)
     (simp_all add: applyPollResponse_def emit_def recorded_account_def assms Let_def)

lemma commitTokens_consistent:
  assumes "tokens_consistent h s"
  shows "tokens_consistent h (snd (commitTokens h s pr))"
proof -
  define s4 where "s4 = s\<lparr>accountName := poll_accountName pr\<rparr>"
  define s5 where "s5 = snd (set_accessToken h s4 (poll_accessToken pr))"
  define s6 where "s6 = snd (set_refreshToken h s5 (poll_refreshToken pr))"
  have "tokens_consistent h s4 = tokens_consistent h s"
    by (rule tokens_consistent_frame) (simp add: s4_def)
  then have c5: "tokens_consistent h s5"
    using assms set_accessToken_consistent by (simp add: s5_def)
  then have c6: "tokens_consistent h s6"
    using set_refreshToken_consistent by (simp add: s6_def)
  have "snd (commitTokens h s pr) \<in> {s5, s6, emit Authenticated s6}"
    by (simp add: commitTokens_def s4_def s5_def s6_def split: prod.splits sum.splits)
  then show ?thesis using c5 c6 emit_consistent by auto
qed

lemma scheduleNextPoll_consistent:
  "tokens_consistent h (scheduleNextPoll r s) = tokens_consistent h s"
  by (rule tokens_consistent_frame) (simp add: scheduleNextPoll_def setTimeout_doPoll_def)

lemma doPoll_resume_consistent:
  assumes "tokens_consistent h s"
  shows "tokens_consistent h (snd (doPoll_resume h s out))"
proof (cases out)
  case (Inl ex)
  then show ?thesis using assms by (simp add: doPoll_resume_def emit_consistent)
next
  case (Inr pr)
  define s1 where "s1 = emit (Debug ''poll response'') s"
  have c1: "tokens_consistent h s1" using assms by (simp add: s1_def emit_consistent)
  show ?thesis
  proof (cases "startSessionResponse s1")
    case None
    then show ?thesis using c1 Inr by (simp add: doPoll_resume_def s1_def)
  next
    case (Some r)
    then have c3: "tokens_consistent h (applyPollResponse s1 r pr)"
      using c1 by (simp add: applyPollResponse_consistent)
    show ?thesis
      using Some Inr c3 commitTokens_consistent [OF c3]
      by (simp add: doPoll_resume_def s1_def [symmetric] Let_def scheduleNextPoll_consistent)
  qed
qed

lemma awaiting_tokens:
  "accessToken (awaiting r) = accessToken (snd r) \<and>
   refreshToken (awaiting r) = refreshToken (snd r) \<and>
   startSessionResponse (awaiting r) = startSessionResponse (snd r)"
  by (simp add: awaiting_def)

lemma tokens_consistent_step:
  assumes "tokens_consistent h s" and "step h H s a = Some s'"
    and "\<And>d. a \<noteq> StartWithCredentials d"
  shows "tokens_consistent h s'"
proof (cases a)
  case (StartWithCredentials d)
  then show ?thesis using assms(3) by simp
next
  case (SubmitSteamGuardCode c)
  then have "s' = snd (submitSteamGuardCode H s c)" using assms(2) by simp
  then show ?thesis
    using assms(1) tokens_consistent_frame [OF submitSteamGuardCode_tokens] by simp
next
  case CancelLoginAttempt
  then have "s' = snd (cancelLoginAttempt s)" using assms(2) by simp
  then show ?thesis
    using assms(1) tokens_consistent_frame [OF cancelLoginAttempt_tokens] by simp
next
  case (SetAccessToken t)
  then show ?thesis using assms(1,2) set_accessToken_consistent by auto
next
  case (SetRefreshToken t)
  then show ?thesis using assms(1,2) set_refreshToken_consistent by auto
next
  case (SetLoginTimeout n)
  then have "s' = s\<lparr>loginTimeout := n\<rparr>" using assms(2) by simp
  moreover have "tokens_consistent h (s\<lparr>loginTimeout := n\<rparr>) = tokens_consistent h s"
    by (rule tokens_consistent_frame) simp
  ultimately show ?thesis using assms(1) by simp
next
  case (RunImmediate a b)
  define s0 where "s0 = s\<lparr>immediates := immediates s - 1\<rparr>"
  have "s' = awaiting (doPoll_begin s0 a b)"
    using assms(2) RunImmediate by (simp add: s0_def split: if_splits)
  moreover have "tokens_consistent h s0 = tokens_consistent h s"
    by (rule tokens_consistent_frame) (simp add: s0_def)
  ultimately show ?thesis
    using assms(1) tokens_consistent_frame [of "awaiting (doPoll_begin s0 a b)" s0 h]
      awaiting_tokens [of "doPoll_begin s0 a b"] doPoll_begin_tokens [of s0 a b]
    by simp
next
  case (FireTimer k a b)
  define s0 where "s0 = s\<lparr>timers := filter (\<lambda>p. fst p \<noteq> k) (timers s)\<rparr>"
  have "s' = awaiting (doPoll_begin s0 a b)"
    using assms(2) FireTimer by (simp add: s0_def split: if_splits)
  moreover have "tokens_consistent h s0 = tokens_consistent h s"
    by (rule tokens_consistent_frame) (simp add: s0_def)
  ultimately show ?thesis
    using assms(1) tokens_consistent_frame [of "awaiting (doPoll_begin s0 a b)" s0 h]
      awaiting_tokens [of "doPoll_begin s0 a b"] doPoll_begin_tokens [of s0 a b]
    by simp
next
  case (PollSettles out)
  have "tokens_consistent h (s\<lparr>inflight := inflight s - 1\<rparr>) = tokens_consistent h s"
    by (rule tokens_consistent_frame) simp
  then have "tokens_consistent h (s\<lparr>inflight := inflight s - 1\<rparr>)"
    using assms(1) by simp
  then show ?thesis using assms(2) PollSettles doPoll_resume_consistent
    by (auto split: if_splits)
qed

text \<open>
  C3. The consistency of the tokens is not preserved by \<^verbatim>\<open>startWithCredentials\<close>: on a
  fresh session, assigning the access token \<open>jwtA\<close> of account 76561198000000001 gives a
  consistent session; starting a login on it, which the client answers with a start
  response for account 76561198000000002, stores that response beside the token, and
  the session is no longer consistent.
\<close>

theorem C3_startWithCredentials_breaks_consistency:
  "\<exists>s1 s2.
     run example_helpers
       (example_client (example_response ''76561198000000002'' [DeviceConfirmation])
          (Inr ()) (Inr OK))
       (new_LoginSession None) [SetAccessToken (Some ''jwtA'')] = Some s1 \<and>
     tokens_consistent example_helpers s1 \<and>
     step example_helpers
       (example_client (example_response ''76561198000000002'' [DeviceConfirmation])
          (Inr ()) (Inr OK))
       s1 (StartWithCredentials (example_details None None)) = Some s2 \<and>
     subject example_helpers (accessToken s2) = Some ''76561198000000001'' \<and>
     recorded_account s2 = Some ''76561198000000002'' \<and>
     \<not> tokens_consistent example_helpers s2"
  by (simp add: model_defs example_defs tokens_consistent_def recorded_account_def subject_def Let_def)

section \<open>Cancelling\<close>

text \<open>
  \<^verbatim>\<open>cancelLoginAttempt()\<close> returns whether a timer handle is stored, and a stored handle
  is not pending afterwards.
\<close>

lemma cancelLoginAttempt_result: "fst (cancelLoginAttempt s) = (pollTimer s \<noteq> None)"
  by (simp add: cancelLoginAttempt_def Let_def split: option.splits)

lemma cancelLoginAttempt_pending:
  "pollTimer s = Some k \<Longrightarrow> \<not> pending (snd (cancelLoginAttempt s)) k"
  by (auto simp: cancelLoginAttempt_def clearTimeout_def pending_def Let_def)

text \<open>
  C4. A login is started with a device confirmation; the first poll brings no token, so
  the next tick is scheduled under the handle 0; that timer fires, and the second poll
  call fails. No timer is armed then, the handle 0 is still stored, and
  \<^verbatim>\<open>cancelLoginAttempt()\<close> returns \<^verbatim>\<open>true\<close>; called once more, it returns \<^verbatim>\<open>true\<close>
  again.
\<close>

theorem C4_stale_timer_handle:
  "\<exists>s. run example_helpers
          (example_client (example_response ''76561198000000001'' [DeviceConfirmation])
             (Inr ()) (Inr OK))
          (new_LoginSession None)
          [StartWithCredentials (example_details None None), RunImmediate 1000 1000,
           PollSettles (Inr (example_poll None None)), FireTimer 0 6000 6000,
           PollSettles (Inl (ExternalError ''network''))] = Some s \<and>
       timers s = [] \<and> pollTimer s = Some 0 \<and> fst (cancelLoginAttempt s) = True \<and>
       fst (cancelLoginAttempt (snd (cancelLoginAttempt s))) = True"
  by (simp add: model_defs example_defs Let_def)

section \<open>The polling loop after cancellation\<close>

lemma doPoll_begin_canceled: "pollingCanceled s \<Longrightarrow> doPoll_begin s now1 now2 = (False, s)"
  by (simp add: doPoll_begin_def)

lemma set_accessToken_shape: "\<exists>x. snd (set_accessToken h s t) = s\<lparr>accessToken := x\<rparr>"
proof -
  have "snd (set_accessToken h s t) = s \<or> snd (set_accessToken h s t) = s\<lparr>accessToken := t\<rparr>"
    by (simp add: set_accessToken_def split: option.splits)
  moreover have "s = s\<lparr>accessToken := accessToken s\<rparr>" by simp
  ultimately show ?thesis by metis
qed

lemma set_refreshToken_shape: "\<exists>x. snd (set_refreshToken h s t) = s\<lparr>refreshToken := x\<rparr>"
proof -
  have "snd (set_refreshToken h s t) = s \<or> snd (set_refreshToken h s t) = s\<lparr>refreshToken := t\<rparr>"
    by (simp add: set_refreshToken_def split: option.splits)
  moreover have "s = s\<lparr>refreshToken := refreshToken s\<rparr>" by simp
  ultimately show ?thesis by metis
qed

lemma commitTokens_polling_state: "polling_state (snd (commitTokens h s pr)) = polling_state s"
proof -
  define s4 where "s4 = s\<lparr>accountName := poll_accountName pr\<rparr>"
  obtain x where x: "snd (set_accessToken h s4 (poll_accessToken pr)) = s4\<lparr>accessToken := x\<rparr>"
    using set_accessToken_shape by blast
  obtain y where y: "snd (set_refreshToken h (s4\<lparr>accessToken := x\<rparr>) (poll_refreshToken pr))
      = s4\<lparr>accessToken := x, refreshToken := y\<rparr>"
    using set_refreshToken_shape by blast
  have "snd (commitTokens h s pr)
          \<in> {s4\<lparr>accessToken := x\<rparr>, s4\<lparr>accessToken := x, refreshToken := y\<rparr>,
              emit Authenticated (s4\<lparr>accessToken := x, refreshToken := y\<rparr>)}"
    using x y
    by (simp add: commitTokens_def s4_def [symmetric] split: prod.splits sum.splits) auto
  then show ?thesis
    by (auto simp: polling_state_def s4_def emit_def)
qed

lemma applyPollResponse_polling_state:
  "polling_state (applyPollResponse s r pr) = polling_state s"
  by (simp add: applyPollResponse_def polling_state_def emit_def Let_def)

lemma emit_polling_state: "polling_state (emit e s) = polling_state s"
  by (simp add: polling_state_def emit_def)

lemma doPoll_resume_canceled:
  assumes "pollingCanceled s"
  shows "polling_state (snd (doPoll_resume h s outcome)) = polling_state s"
proof (cases outcome)
  case (Inl ex)
  then show ?thesis by (simp add: doPoll_resume_def emit_polling_state)
next
  case (Inr pr)
  define s1 where "s1 = emit (Debug ''poll response'') s"
  have p1: "polling_state s1 = polling_state s" by (simp add: s1_def emit_polling_state)
  show ?thesis
  proof (cases "startSessionResponse s1")
    case None
    then show ?thesis using Inr p1 by (simp add: doPoll_resume_def s1_def [symmetric])
  next
    case (Some r)
    have p3: "polling_state (applyPollResponse s1 r pr) = polling_state s"
      using p1 by (simp add: applyPollResponse_polling_state)
    then have "pollingCanceled (applyPollResponse s1 r pr)"
      using assms by (simp add: polling_state_def)
    then show ?thesis
      using Inr Some p3
      by (simp add: doPoll_resume_def s1_def [symmetric] Let_def commitTokens_polling_state)
  qed
qed

text \<open>
  C7 (as amended). Once the cancellation flag is set, a poll tick returns at its entry:
  it issues no poll call and changes nothing. When a poll call that was in flight
  settles while the flag is set, no timer is armed and the stored handle, the queue of
  immediates and the call log stay as they were, and the flag stays set. (The result
  itself is still processed: see the counterexample below.)
\<close>

theorem C7_cancelled_polling:
  assumes "pollingCanceled s"
  shows "doPoll_begin s now1 now2 = (False, s) \<and>
         timers (snd (doPoll_resume h s outcome)) = timers s \<and>
         nextTimer (snd (doPoll_resume h s outcome)) = nextTimer s \<and>
         pollTimer (snd (doPoll_resume h s outcome)) = pollTimer s \<and>
         immediates (snd (doPoll_resume h s outcome)) = immediates s \<and>
         calls (snd (doPoll_resume h s outcome)) = calls s \<and>
         pollingCanceled (snd (doPoll_resume h s outcome))"
  using assms doPoll_begin_canceled [OF assms] doPoll_resume_canceled [OF assms, of h outcome]
  by (simp add: polling_state_def)

theorem C7_cancelled_polling_witness:
  "pollingCanceled
     ((new_LoginSession None)
        \<lparr>startSessionResponse := Some (example_response ''76561198000000001'' [DeviceConfirmation]),
         pollingCanceled := True\<rparr>) \<and>
   fst (doPoll_begin
     ((new_LoginSession None)
        \<lparr>startSessionResponse := Some (example_response ''76561198000000001'' [DeviceConfirmation]),
         pollingCanceled := True\<rparr>) 1000 1000) = False \<and>
   timers (snd (doPoll_resume example_helpers
     ((new_LoginSession None)
        \<lparr>startSessionResponse := Some (example_response ''76561198000000001'' [DeviceConfirmation]),
         pollingCanceled := True\<rparr>) (Inr (example_poll None None)))) = [] \<and>
   pollTimer (snd (doPoll_resume example_helpers
     ((new_LoginSession None)
        \<lparr>startSessionResponse := Some (example_response ''76561198000000001'' [DeviceConfirmation]),
         pollingCanceled := True\<rparr>) (Inr (example_poll None None)))) = None"
  using C7_cancelled_polling [of
      "(new_LoginSession None)
        \<lparr>startSessionResponse := Some (example_response ''76561198000000001'' [DeviceConfirmation]),
         pollingCanceled := True\<rparr>"
      1000 1000 example_helpers "Inr (example_poll None None)"]
  by (simp add: new_LoginSession_def)

text \<open>
  C7 as stated fails: a login is started, the first tick issues its poll call, and the
  login is cancelled while the call is in flight. The call then resolves with tokens:
  both tokens and the account name are committed and \<open>Authenticated\<close> is emitted,
  although the flag is set.
\<close>

theorem C7_inflight_result_committed:
  "\<exists>s1 s2.
     run example_helpers
       (example_client (example_response ''76561198000000001'' [DeviceConfirmation])
          (Inr ()) (Inr OK))
       (new_LoginSession None)
       [StartWithCredentials (example_details None None), RunImmediate 1000 1000,
        CancelLoginAttempt] = Some s1 \<and>
     pollingCanceled s1 \<and> inflight s1 = 1 \<and> accessToken s1 = None \<and> refreshToken s1 = None \<and>
     step example_helpers
       (example_client (example_response ''76561198000000001'' [DeviceConfirmation])
          (Inr ()) (Inr OK))
       s1 (PollSettles (Inr (example_poll (Some ''jwtA'') (Some ''jwtA'')))) = Some s2 \<and>
     accessToken s2 = Some ''jwtA'' \<and> refreshToken s2 = Some ''jwtA'' \<and>
     accountName s2 = Some ''alice'' \<and>
     emitted s2 = emitted s1 @ [Debug ''poll response'', Authenticated]"
  by (simp add: model_defs example_defs Let_def)

section \<open>The login timeout\<close>

lemma doPoll_resume_pollingStartedTime:
  "pollingStartedTime (snd (doPoll_resume h s outcome)) = pollingStartedTime s"
proof (cases outcome)
  case (Inl ex)
  then show ?thesis by (simp add: doPoll_resume_def emit_def)
next
  case (Inr pr)
  define s1 where "s1 = emit (Debug ''poll response'') s"
  have p1: "pollingStartedTime s1 = pollingStartedTime s" by (simp add: s1_def emit_def)
  show ?thesis
  proof (cases "startSessionResponse s1")
    case None
    then show ?thesis using Inr p1 by (simp add: doPoll_resume_def s1_def [symmetric])
  next
    case (Some r)
    have "polling_state (applyPollResponse s1 r pr) = polling_state s1"
      by (rule applyPollResponse_polling_state)
    then have p3: "pollingStartedTime (applyPollResponse s1 r pr) = pollingStartedTime s"
      using p1 by (simp add: polling_state_def)
    have "polling_state (snd (commitTokens h (applyPollResponse s1 r pr) pr))
            = polling_state (applyPollResponse s1 r pr)"
      by (rule commitTokens_polling_state)
    then have p4: "pollingStartedTime (snd (commitTokens h (applyPollResponse s1 r pr) pr))
            = pollingStartedTime s"
      using p3 by (simp add: polling_state_def)
    have p5: "pollingStartedTime (scheduleNextPoll r (applyPollResponse s1 r pr))
            = pollingStartedTime s"
      using p3 by (simp add: scheduleNextPoll_def setTimeout_doPoll_def)
    show ?thesis
      using Inr Some p3 p4 p5
      by (simp add: doPoll_resume_def s1_def [symmetric] Let_def)
  qed
qed

lemma cancelLoginAttempt_fields:
  "pollingCanceled (snd (cancelLoginAttempt s)) \<and>
   calls (snd (cancelLoginAttempt s)) = calls s \<and>
   emitted (snd (cancelLoginAttempt s)) = emitted s \<and>
   pollingStartedTime (snd (cancelLoginAttempt s)) = pollingStartedTime s"
  by (simp add: cancelLoginAttempt_def clearTimeout_def Let_def split: option.splits)

lemma doPoll_begin_timeout:
  assumes "\<not> pollingCanceled s" and "loginTimeout s \<le> now2 - pollingStart s now1"
  shows "doPoll_begin s now1 now2 =
           (False, snd (cancelLoginAttempt (emit Timeout
              (if truthy_num (pollingStartedTime s) then clearTimeout (pollTimer s) s
               else emit Polling ((clearTimeout (pollTimer s) s)\<lparr>pollingStartedTime := Some now1\<rparr>)))))"
  using assms
  by (cases "truthy_num (pollingStartedTime s)")
     (simp_all add: doPoll_begin_def pollingStart_def clearTimeout_def emit_def Let_def
        split: option.splits)

lemma doPoll_begin_pollingStartedTime:
  "\<not> pollingCanceled s \<Longrightarrow>
   pollingStartedTime (snd (doPoll_begin s now1 now2)) = Some (pollingStart s now1)"
  by (cases "pollingStartedTime s")
     (simp_all add: doPoll_begin_def pollingStart_def clearTimeout_def emit_def Let_def
        cancelLoginAttempt_def split: option.splits)

text \<open>
  C8. On a tick at which the time elapsed since the start timestamp (the recorded one,
  or on the first tick the one being recorded) has reached the login timeout: no poll
  call is issued, the cancellation flag is set afterwards, a tick of a loop that was
  not cancelled emits \<open>Timeout\<close> (after \<open>Polling\<close> if it is the first tick), and every
  later tick returns at its entry. The start timestamp is recorded by the first tick
  and, once recorded, is changed neither by a tick nor by the settling of a poll call.
\<close>

theorem C8_timeout:
  "(loginTimeout s \<le> now2 - pollingStart s now1 \<longrightarrow>
      fst (doPoll_begin s now1 now2) = False \<and>
      calls (snd (doPoll_begin s now1 now2)) = calls s \<and>
      pollingCanceled (snd (doPoll_begin s now1 now2)) \<and>
      (\<not> pollingCanceled s \<longrightarrow>
         emitted (snd (doPoll_begin s now1 now2))
           = emitted s @ (if truthy_num (pollingStartedTime s) then [] else [Polling]) @ [Timeout]) \<and>
      doPoll_begin (snd (doPoll_begin s now1 now2)) later1 later2
        = (False, snd (doPoll_begin s now1 now2))) \<and>
   (\<not> pollingCanceled s \<longrightarrow>
      pollingStartedTime (snd (doPoll_begin s now1 now2)) = Some (pollingStart s now1)) \<and>
   (truthy_num (pollingStartedTime s) \<longrightarrow>
      pollingStartedTime (snd (doPoll_begin s now1 now2)) = pollingStartedTime s \<and>
      pollingStartedTime (snd (doPoll_resume h s outcome)) = pollingStartedTime s)"
proof (intro conjI impI)
  assume t: "loginTimeout s \<le> now2 - pollingStart s now1"
  show "fst (doPoll_begin s now1 now2) = False"
    using t doPoll_begin_timeout [of s now2 now1] doPoll_begin_canceled [of s now1 now2]
    by (cases "pollingCanceled s") simp_all
  show "calls (snd (doPoll_begin s now1 now2)) = calls s"
    using t doPoll_begin_timeout [of s now2 now1] doPoll_begin_canceled [of s now1 now2]
    by (cases "pollingCanceled s")
       (simp_all add: cancelLoginAttempt_fields emit_def clearTimeout_def split: option.splits)
  show c: "pollingCanceled (snd (doPoll_begin s now1 now2))"
    using t doPoll_begin_timeout [of s now2 now1] doPoll_begin_canceled [of s now1 now2]
    by (cases "pollingCanceled s") (simp_all add: cancelLoginAttempt_fields)
  show "doPoll_begin (snd (doPoll_begin s now1 now2)) later1 later2
          = (False, snd (doPoll_begin s now1 now2))"
    using c by (rule doPoll_begin_canceled)
  show "emitted (snd (doPoll_begin s now1 now2))
          = emitted s @ (if truthy_num (pollingStartedTime s) then [] else [Polling]) @ [Timeout]"
    if "\<not> pollingCanceled s"
    using that t doPoll_begin_timeout [of s now2 now1]
    by (simp add: cancelLoginAttempt_fields emit_def clearTimeout_def split: option.splits)
next
  assume "\<not> pollingCanceled s"
  then show "pollingStartedTime (snd (doPoll_begin s now1 now2)) = Some (pollingStart s now1)"
    by (rule doPoll_begin_pollingStartedTime)
next
  assume tr: "truthy_num (pollingStartedTime s)"
  then obtain t0 where t0: "pollingStartedTime s = Some t0" by (cases "pollingStartedTime s") auto
  show "pollingStartedTime (snd (doPoll_begin s now1 now2)) = pollingStartedTime s"
    using doPoll_begin_pollingStartedTime [of s now1 now2] doPoll_begin_canceled [of s now1 now2] tr t0
    by (cases "pollingCanceled s") (simp_all add: pollingStart_def)
  show "pollingStartedTime (snd (doPoll_resume h s outcome)) = pollingStartedTime s"
    by (rule doPoll_resume_pollingStartedTime)
qed

theorem C8_timeout_witness:
  "loginTimeout ((new_LoginSession None)\<lparr>pollingStartedTime := Some 1000\<rparr>)
     \<le> 31000 - pollingStart ((new_LoginSession None)\<lparr>pollingStartedTime := Some 1000\<rparr>) 31000 \<and>
   \<not> pollingCanceled ((new_LoginSession None)\<lparr>pollingStartedTime := Some 1000\<rparr>) \<and>
   truthy_num (pollingStartedTime ((new_LoginSession None)\<lparr>pollingStartedTime := Some 1000\<rparr>)) \<and>
   fst (doPoll_begin ((new_LoginSession None)\<lparr>pollingStartedTime := Some 1000\<rparr>) 31000 31000)
     = False \<and>
   calls (snd (doPoll_begin ((new_LoginSession None)\<lparr>pollingStartedTime := Some 1000\<rparr>) 31000 31000))
     = [] \<and>
   emitted (snd (doPoll_begin ((new_LoginSession None)\<lparr>pollingStartedTime := Some 1000\<rparr>) 31000 31000))
     = [Timeout] \<and>
   pollingCanceled
     (snd (doPoll_begin ((new_LoginSession None)\<lparr>pollingStartedTime := Some 1000\<rparr>) 31000 31000)) \<and>
   pollingStartedTime
     (snd (doPoll_begin ((new_LoginSession None)\<lparr>pollingStartedTime := Some 1000\<rparr>) 31000 31000))
     = Some 1000"
  using C8_timeout [where s = "(new_LoginSession None)\<lparr>pollingStartedTime := Some 1000\<rparr>"
      and ?now1.0 = 31000 and ?now2.0 = 31000 and ?later1.0 = 0 and ?later2.0 = 0
      and h = example_helpers and outcome = "Inl TypeError"]
  by (simp add: new_LoginSession_def pollingStart_def)

section \<open>Guard resolution: how the loop ends\<close>

lemma loop_MachineToken:
  "list_all (\<lambda>c. type c = MachineToken) cs \<Longrightarrow> confirmations_loop H cs acts s = (Completed acts, s)"
  by (induction cs) simp_all

lemma loop_Completed:
  "confirmations_loop H cs acts s = (Completed acts', s') \<Longrightarrow>
   \<exists>more. acts' = acts @ more \<and> length more = length (filter (\<lambda>c. type c \<noteq> MachineToken) cs)"
proof (induction cs arbitrary: acts s)
  case Nil
  then show ?case by simp
next
  case (Cons i rest)
  show ?case
  proof (cases "type i")
    case NoneG
    then show ?thesis using Cons.prems by simp
  next
    case EmailCode
    then obtain s1 where "confirmations_loop H rest (acts @ [code_action i]) s1 = (Completed acts', s')"
      using Cons.prems by (auto split: prod.splits sum.splits if_splits)
    from Cons.IH [OF this] show ?thesis using EmailCode by auto
  next
    case DeviceCode
    then obtain s1 where "confirmations_loop H rest (acts @ [code_action i]) s1 = (Completed acts', s')"
      using Cons.prems by (auto split: prod.splits sum.splits if_splits)
    from Cons.IH [OF this] show ?thesis using DeviceCode by auto
  next
    case DeviceConfirmation
    then obtain s1 where "confirmations_loop H rest (acts @ [\<lparr>action_type = type i, detail = None\<rparr>]) s1 = (Completed acts', s')"
      using Cons.prems by auto
    from Cons.IH [OF this] show ?thesis using DeviceConfirmation by auto
  next
    case EmailConfirmation
    then obtain s1 where "confirmations_loop H rest (acts @ [\<lparr>action_type = type i, detail = None\<rparr>]) s1 = (Completed acts', s')"
      using Cons.prems by auto
    from Cons.IH [OF this] show ?thesis using EmailConfirmation by auto
  next
    case MachineToken
    then have "confirmations_loop H rest acts s = (Completed acts', s')"
      using Cons.prems by simp
    from Cons.IH [OF this] show ?thesis using MachineToken by auto
  next
    case (UnknownGuard n)
    then show ?thesis using Cons.prems by simp
  qed
qed

lemma loop_Completed_Nil:
  "fst (confirmations_loop H cs [] s) = Completed [] \<longleftrightarrow> list_all (\<lambda>c. type c = MachineToken) cs"
proof
  assume "fst (confirmations_loop H cs [] s) = Completed []"
  then obtain s' where "confirmations_loop H cs [] s = (Completed [], s')"
    by (cases "confirmations_loop H cs [] s") simp
  from loop_Completed [OF this] have "filter (\<lambda>c. type c \<noteq> MachineToken) cs = []" by simp
  then show "list_all (\<lambda>c. type c = MachineToken) cs"
    by (simp add: filter_empty_conv list_all_iff)
next
  assume "list_all (\<lambda>c. type c = MachineToken) cs"
  then show "fst (confirmations_loop H cs [] s) = Completed []"
    by (simp add: loop_MachineToken)
qed

lemma loop_Returned:
  "confirmations_loop H cs acts s = (Returned res, s') \<Longrightarrow>
   res = \<lparr>actionRequired = False, validActions = None\<rparr>"
proof (induction cs arbitrary: acts s)
  case Nil
  then show ?case by simp
next
  case (Cons i rest)
  show ?case
  proof (cases "type i")
    case EmailCode
    then show ?thesis using Cons.prems Cons.IH
      by (auto split: prod.splits sum.splits if_splits)
  next
    case DeviceCode
    then show ?thesis using Cons.prems Cons.IH
      by (auto split: prod.splits sum.splits if_splits)
  qed (use Cons.prems Cons.IH in auto)
qed

lemma after_loop_actions:
  assumes "after_loop (confirmations_loop H cs acts s) = (Inr res, s')" and "actionRequired res"
  shows "\<exists>more. validActions res = Some (acts @ more) \<and> acts @ more \<noteq> []"
proof (cases "confirmations_loop H cs acts s")
  case (Pair e s1)
  show ?thesis
  proof (cases e)
    case (Returned x)
    then have "x = \<lparr>actionRequired = False, validActions = None\<rparr>"
      using loop_Returned Pair by blast
    then show ?thesis using assms Pair Returned by (auto simp: after_loop_def)
  next
    case (Thrown x)
    then show ?thesis using assms Pair by (simp add: after_loop_def)
  next
    case (Completed acts')
    then obtain more where "acts' = acts @ more" using loop_Completed Pair by blast
    then show ?thesis using assms Pair Completed
      by (auto simp: after_loop_def split: if_splits)
  qed
qed

text \<open>
  C5. With a start response stored: if the loop over the allowed confirmations runs to
  its end with no action collected (no \<^verbatim>\<open>return\<close> for a \<open>None\<close> challenge or an
  accepted code or machine token, no \<^verbatim>\<open>throw\<close>), processing the start response fails with
  the error \<open>ActionUnknown\<close>. The loop ends so exactly when every entry is a
  \<open>MachineToken\<close>, which covers the empty list and the list holding only \<open>MachineToken\<close>;
  then the call throws \<open>ActionUnknown\<close> and has only reset the cancellation flag. A
  success that requires action always carries at least one action.
\<close>

theorem C5_no_action_found:
  assumes "startSessionResponse s = Some r"
  shows "(fst (confirmations_loop H (allowedConfirmations r) [] (s\<lparr>pollingCanceled := False\<rparr>))
            = Completed [] \<longrightarrow>
          fst (processStartSessionResponse H s) = Inl ActionUnknown) \<and>
         (fst (confirmations_loop H (allowedConfirmations r) [] (s\<lparr>pollingCanceled := False\<rparr>))
            = Completed [] \<longleftrightarrow>
          list_all (\<lambda>c. type c = MachineToken) (allowedConfirmations r)) \<and>
         (list_all (\<lambda>c. type c = MachineToken) (allowedConfirmations r) \<longrightarrow>
          processStartSessionResponse H s = (Inl ActionUnknown, s\<lparr>pollingCanceled := False\<rparr>)) \<and>
         (\<forall>res. fst (processStartSessionResponse H s) = Inr res \<and> actionRequired res \<longrightarrow>
            (\<exists>a acts. validActions res = Some (a # acts)))"
proof -
  define s1 where "s1 = s\<lparr>pollingCanceled := False\<rparr>"
  have p: "processStartSessionResponse H s
             = after_loop (confirmations_loop H (allowedConfirmations r) [] s1)"
    using assms by (simp add: processStartSessionResponse_def s1_def)
  have a: "fst (processStartSessionResponse H s) = Inl ActionUnknown"
    if "fst (confirmations_loop H (allowedConfirmations r) [] s1) = Completed []"
    using that unfolding p
    by (cases "confirmations_loop H (allowedConfirmations r) [] s1") (simp add: after_loop_def)
  have b: "fst (confirmations_loop H (allowedConfirmations r) [] s1) = Completed [] \<longleftrightarrow>
           list_all (\<lambda>c. type c = MachineToken) (allowedConfirmations r)"
    by (rule loop_Completed_Nil)
  have c: "processStartSessionResponse H s = (Inl ActionUnknown, s1)"
    if "list_all (\<lambda>c. type c = MachineToken) (allowedConfirmations r)"
    unfolding p using that by (simp add: loop_MachineToken after_loop_def)
  have d: "\<exists>a acts. validActions res = Some (a # acts)"
    if "fst (processStartSessionResponse H s) = Inr res \<and> actionRequired res" for res
  proof -
    have "after_loop (confirmations_loop H (allowedConfirmations r) [] s1)
            = (Inr res, snd (after_loop (confirmations_loop H (allowedConfirmations r) [] s1)))"
      using that unfolding p
      by (cases "after_loop (confirmations_loop H (allowedConfirmations r) [] s1)") simp
    from after_loop_actions [OF this] that
    obtain more where "validActions res = Some more" and "more \<noteq> []" by auto
    then show ?thesis by (cases more) auto
  qed
  show ?thesis using a b c d unfolding s1_def by blast
qed

theorem C5_no_action_found_witness:
  "startSessionResponse
     ((new_LoginSession None)\<lparr>startSessionResponse :=
        Some (example_response ''76561198000000001'' [MachineToken])\<rparr>)
     = Some (example_response ''76561198000000001'' [MachineToken]) \<and>
   list_all (\<lambda>c. type c = MachineToken)
     (allowedConfirmations (example_response ''76561198000000001'' [MachineToken])) \<and>
   fst (confirmations_loop (example_client (example_response [] []) (Inr ()) (Inr OK))
          (allowedConfirmations (example_response ''76561198000000001'' [MachineToken])) []
          ((new_LoginSession None)\<lparr>startSessionResponse :=
             Some (example_response ''76561198000000001'' [MachineToken]),
             pollingCanceled := False\<rparr>)) = Completed [] \<and>
   fst (processStartSessionResponse (example_client (example_response [] []) (Inr ()) (Inr OK))
          ((new_LoginSession None)\<lparr>startSessionResponse :=
             Some (example_response ''76561198000000001'' [MachineToken])\<rparr>))
     = Inl ActionUnknown"
  using C5_no_action_found [of
      "(new_LoginSession None)\<lparr>startSessionResponse :=
         Some (example_response ''76561198000000001'' [MachineToken])\<rparr>"
      "example_response ''76561198000000001'' [MachineToken]"
      "example_client (example_response [] []) (Inr ()) (Inr OK)"]
  by (simp add: example_response_def)

section \<open>Guard resolution: the machine-token shortcut\<close>

lemma emit_guard_inputs [simp]: "guard_inputs (emit e s) = guard_inputs s"
  by (simp add: guard_inputs_def emit_def)

lemma setImmediate_guard_inputs [simp]: "guard_inputs (setImmediate_doPoll s) = guard_inputs s"
  by (simp add: guard_inputs_def setImmediate_doPoll_def)

lemma emit_calls [simp]: "calls (emit e s) = calls s"
  by (simp add: emit_def)

lemma setImmediate_calls [simp]: "calls (setImmediate_doPoll s) = calls s"
  by (simp add: setImmediate_doPoll_def)

lemma submitSteamGuardCode_guard_inputs:
  "guard_inputs (snd (submitSteamGuardCode H s c)) = guard_inputs s"
  by (auto simp: submitSteamGuardCode_def guard_inputs_def emit_def setImmediate_doPoll_def
        Let_def split: option.splits sum.splits)

lemma trySuppliedCode_guard_inputs:
  "guard_inputs (snd (trySuppliedCode w H s)) = guard_inputs s"
  using submitSteamGuardCode_guard_inputs [of H s "the (steamGuardCode s)"]
  by (auto simp: trySuppliedCode_def split: prod.splits sum.splits)

lemma machineTokenAuth_guard_inputs:
  "guard_inputs (snd (machineTokenAuth H s)) = guard_inputs s"
  by (auto simp: machineTokenAuth_def guard_inputs_def setImmediate_doPoll_def Let_def
        split: option.splits sum.splits)

lemma attemptEmailCodeAuth_guard_inputs:
  "guard_inputs (snd (attemptEmailCodeAuth H s)) = guard_inputs s"
  using trySuppliedCode_guard_inputs [of InvalidLoginAuthCode H s]
    machineTokenAuth_guard_inputs [of H "snd (trySuppliedCode InvalidLoginAuthCode H s)"]
  by (auto simp: attemptEmailCodeAuth_def split: prod.splits option.splits)

lemma attemptTotpCodeAuth_guard_inputs:
  "guard_inputs (snd (attemptTotpCodeAuth H s)) = guard_inputs s"
  using trySuppliedCode_guard_inputs [of TwoFactorCodeMismatch H s]
  by (auto simp: attemptTotpCodeAuth_def split: prod.splits option.splits)

lemma loop_guard_inputs:
  "guard_inputs (snd (confirmations_loop H cs acts s)) = guard_inputs s"
proof (induction cs arbitrary: acts s)
  case Nil
  then show ?case by simp
next
  case (Cons i rest)
  show ?case
  proof (cases "type i")
    case EmailCode
    then show ?thesis
      using Cons.IH attemptEmailCodeAuth_guard_inputs [of H "emit (Debug ''email code required'') s"]
      by (auto split: prod.splits sum.splits)
  next
    case DeviceCode
    then show ?thesis
      using Cons.IH attemptTotpCodeAuth_guard_inputs [of H "emit (Debug ''device code required'') s"]
      by (auto split: prod.splits sum.splits)
  qed (simp_all add: Cons.IH)
qed

lemma machineTokenAuth_calls:
  assumes "startSessionResponse s = Some r" and "some_type MachineToken (allowedConfirmations r)"
  shows "calls (snd (machineTokenAuth H s))
           = calls s @ [Call_checkMachineAuthOrSendCodeEmail (steamGuardMachineToken s)]"
  using assms by (simp add: machineTokenAuth_def Let_def split: sum.splits)

text \<open>
  When the supplied guard code is accepted, the method has returned before the
  shortcut: it makes no call beyond the submission.
\<close>

lemma machine_token_not_reached:
  assumes "truthy (steamGuardCode s)"
    and "fst (submitSteamGuardCode H s (the (steamGuardCode s))) = Inr ()"
  shows "attemptEmailCodeAuth H s
           = (Inr True, snd (submitSteamGuardCode H s (the (steamGuardCode s))))"
  using assms
  by (cases "submitSteamGuardCode H s (the (steamGuardCode s))")
     (simp add: attemptEmailCodeAuth_def trySuppliedCode_def)

text \<open>
  C10. In \<^verbatim>\<open>_attemptEmailCodeAuth\<close>, with \<open>MachineToken\<close> among the allowed confirmations:
  when no guard code is supplied, the method calls the machine-token check of the client
  with the machine token stored in the session, whatever it is (an absent one
  included); when the supplied guard code has been submitted and rejected with
  \<open>InvalidLoginAuthCode\<close>, the method makes the same call right after the submission.
\<close>

theorem C10_machine_token_attempted:
  assumes "startSessionResponse s = Some r" and "some_type MachineToken (allowedConfirmations r)"
  shows "(\<not> truthy (steamGuardCode s) \<longrightarrow>
            calls (snd (attemptEmailCodeAuth H s))
              = calls s @ [Call_checkMachineAuthOrSendCodeEmail (steamGuardMachineToken s)]) \<and>
         (truthy (steamGuardCode s) \<and>
          fst (submitSteamGuardCode H s (the (steamGuardCode s))) = Inl ex \<and>
          eresult ex = Some InvalidLoginAuthCode \<longrightarrow>
            calls (snd (attemptEmailCodeAuth H s))
              = calls (snd (submitSteamGuardCode H s (the (steamGuardCode s))))
                  @ [Call_checkMachineAuthOrSendCodeEmail (steamGuardMachineToken s)])"
proof (intro conjI impI)
  assume "\<not> truthy (steamGuardCode s)"
  then show "calls (snd (attemptEmailCodeAuth H s))
      = calls s @ [Call_checkMachineAuthOrSendCodeEmail (steamGuardMachineToken s)]"
    using machineTokenAuth_calls [OF assms]
    by (simp add: attemptEmailCodeAuth_def trySuppliedCode_def)
next
  assume a: "truthy (steamGuardCode s) \<and>
          fst (submitSteamGuardCode H s (the (steamGuardCode s))) = Inl ex \<and>
          eresult ex = Some InvalidLoginAuthCode"
  define s1 where "s1 = snd (submitSteamGuardCode H s (the (steamGuardCode s)))"
  have g: "guard_inputs s1 = guard_inputs s"
    by (simp add: s1_def submitSteamGuardCode_guard_inputs)
  then have r1: "startSessionResponse s1 = Some r"
    and m1: "steamGuardMachineToken s1 = steamGuardMachineToken s"
    using assms(1) by (simp_all add: guard_inputs_def)
  have "attemptEmailCodeAuth H s = machineTokenAuth H s1"
    using a
    by (cases "submitSteamGuardCode H s (the (steamGuardCode s))")
       (simp add: attemptEmailCodeAuth_def trySuppliedCode_def s1_def)
  then show "calls (snd (attemptEmailCodeAuth H s))
      = calls (snd (submitSteamGuardCode H s (the (steamGuardCode s))))
          @ [Call_checkMachineAuthOrSendCodeEmail (steamGuardMachineToken s)]"
    using machineTokenAuth_calls [OF r1 assms(2), of H] m1 by (simp add: s1_def)
qed

theorem C10_machine_token_attempted_witness:
  "startSessionResponse
     ((new_LoginSession None)\<lparr>steamGuardCode := Some ''12345'', startSessionResponse :=
        Some (example_response ''76561198000000001'' [EmailCode, MachineToken])\<rparr>)
     = Some (example_response ''76561198000000001'' [EmailCode, MachineToken]) \<and>
   some_type MachineToken
     (allowedConfirmations (example_response ''76561198000000001'' [EmailCode, MachineToken])) \<and>
   truthy (steamGuardCode
     ((new_LoginSession None)\<lparr>steamGuardCode := Some ''12345'', startSessionResponse :=
        Some (example_response ''76561198000000001'' [EmailCode, MachineToken])\<rparr>)) \<and>
   steamGuardMachineToken
     ((new_LoginSession None)\<lparr>steamGuardCode := Some ''12345'', startSessionResponse :=
        Some (example_response ''76561198000000001'' [EmailCode, MachineToken])\<rparr>) = None \<and>
   fst (submitSteamGuardCode
          (example_client (example_response [] []) (Inl (EResultError InvalidLoginAuthCode))
             (Inr (OtherEResult 5)))
          ((new_LoginSession None)\<lparr>steamGuardCode := Some ''12345'', startSessionResponse :=
             Some (example_response ''76561198000000001'' [EmailCode, MachineToken])\<rparr>)
          ''12345'') = Inl (EResultError InvalidLoginAuthCode) \<and>
   calls (snd (attemptEmailCodeAuth
          (example_client (example_response [] []) (Inl (EResultError InvalidLoginAuthCode))
             (Inr (OtherEResult 5)))
          ((new_LoginSession None)\<lparr>steamGuardCode := Some ''12345'', startSessionResponse :=
             Some (example_response ''76561198000000001'' [EmailCode, MachineToken])\<rparr>)))
     = [Call_submitSteamGuardCode ''12345'' EmailCode, Call_checkMachineAuthOrSendCodeEmail None]"
  using C10_machine_token_attempted [of
      "(new_LoginSession None)\<lparr>steamGuardCode := Some ''12345'', startSessionResponse :=
         Some (example_response ''76561198000000001'' [EmailCode, MachineToken])\<rparr>"
      "example_response ''76561198000000001'' [EmailCode, MachineToken]"
      "example_client (example_response [] []) (Inl (EResultError InvalidLoginAuthCode))
         (Inr (OtherEResult 5))"
      "EResultError InvalidLoginAuthCode"]
  by (simp add: new_LoginSession_def example_response_def example_client_def some_type_def
        submitSteamGuardCode_def emit_def Let_def)

section \<open>Guard resolution: a rejected guard code\<close>

lemma loop_append:
  "confirmations_loop H pre acts s = (Completed acts1, s1) \<Longrightarrow>
   confirmations_loop H (pre @ cs) acts s = confirmations_loop H cs acts1 s1"
proof (induction pre arbitrary: acts s)
  case Nil
  then show ?case by simp
next
  case (Cons i rest)
  show ?case
  proof (cases "type i")
    case EmailCode
    then show ?thesis using Cons.prems Cons.IH
      by (auto split: prod.splits sum.splits if_splits)
  next
    case DeviceCode
    then show ?thesis using Cons.prems Cons.IH
      by (auto split: prod.splits sum.splits if_splits)
  qed (use Cons.prems Cons.IH in auto)
qed

lemma submitSteamGuardCode_rejected:
  assumes "startSessionResponse s = Some r"
    and "some_type EmailCode (allowedConfirmations r) \<or> some_type DeviceCode (allowedConfirmations r)"
    and "h_submitSteamGuardCode H (length (calls s)) = Inl ex"
  shows "fst (submitSteamGuardCode H s c) = Inl ex \<and>
         length (calls (snd (submitSteamGuardCode H s c))) = Suc (length (calls s))"
  using assms by (auto simp: submitSteamGuardCode_def Let_def)

lemma machineTokenAuth_fails:
  assumes "startSessionResponse s = Some r"
    and "\<not> some_type MachineToken (allowedConfirmations r) \<or>
         (\<exists>res. h_checkMachineAuthOrSendCodeEmail H (length (calls s)) = Inr res \<and> res \<noteq> OK)"
  shows "fst (machineTokenAuth H s) = Inr False"
  using assms by (auto simp: machineTokenAuth_def Let_def)

text \<open>
  C6 (as amended). \<^verbatim>\<open>startWithCredentials\<close> has stored the start response \<open>r\<close>, a guard
  code was supplied, the loop has reached the challenge \<open>i\<close> (the entries \<open>pre\<close> before
  it collected the actions \<open>acts\<close>), and the client rejects the submission made for \<open>i\<close>
  with \<open>ex\<close>.
  If \<open>i\<close> is a \<open>DeviceCode\<close> and \<open>ex\<close> carries \<open>TwoFactorCodeMismatch\<close>, or \<open>i\<close> is an
  \<open>EmailCode\<close>, \<open>ex\<close> carries \<open>InvalidLoginAuthCode\<close> and the machine-token shortcut does
  not resolve the challenge (\<open>MachineToken\<close> is not allowed, or the check answers with a
  result other than \<open>OK\<close>), the rejection is swallowed: the action for \<open>i\<close> is appended to
  the pending actions, the loop goes on with the rest, and if the call ends by requiring
  action its list holds the actions of \<open>acts\<close> and then the one for \<open>i\<close>.
  If \<open>ex\<close> does not carry the wrong-code result of the challenge's type,
  \<^verbatim>\<open>startWithCredentials\<close> throws \<open>ex\<close>.
\<close>

theorem C6_rejected_guard_code:
  assumes "startWithCredentials_request H s d = (Inr (), s0)"
    and "startSessionResponse s0 = Some r"
    and "allowedConfirmations r = pre @ i # rest"
    and "confirmations_loop H pre [] (s0\<lparr>pollingCanceled := False\<rparr>) = (Completed acts, s1)"
    and "truthy (steamGuardCode s0)"
    and "h_submitSteamGuardCode H (length (calls s1)) = Inl ex"
  shows
    "((type i = DeviceCode \<and> eresult ex = Some TwoFactorCodeMismatch) \<or>
      (type i = EmailCode \<and> eresult ex = Some InvalidLoginAuthCode \<and>
         (\<not> some_type MachineToken (allowedConfirmations r) \<or>
          (\<exists>res. h_checkMachineAuthOrSendCodeEmail H (Suc (length (calls s1))) = Inr res \<and>
                 res \<noteq> OK))) \<longrightarrow>
        (\<exists>s2. startWithCredentials H s d
                 = after_loop (confirmations_loop H rest (acts @ [code_action i]) s2)) \<and>
        (\<forall>res. fst (startWithCredentials H s d) = Inr res \<and> actionRequired res \<longrightarrow>
           (\<exists>more. validActions res = Some (acts @ code_action i # more)))) \<and>
     ((type i = DeviceCode \<and> eresult ex \<noteq> Some TwoFactorCodeMismatch) \<or>
      (type i = EmailCode \<and> eresult ex \<noteq> Some InvalidLoginAuthCode) \<longrightarrow>
        fst (startWithCredentials H s d) = Inl ex)"
proof -
  define code where "code = the (steamGuardCode s0)"
  have g0: "guard_inputs (s0\<lparr>pollingCanceled := False\<rparr>) = guard_inputs s0"
    by (simp add: guard_inputs_def)
  have "guard_inputs s1 = guard_inputs (s0\<lparr>pollingCanceled := False\<rparr>)"
    using loop_guard_inputs [of H pre "[]" "s0\<lparr>pollingCanceled := False\<rparr>"] assms(4) by simp
  then have g1: "guard_inputs s1 = guard_inputs s0" using g0 by simp
  have whole: "startWithCredentials H s d
                 = after_loop (confirmations_loop H (i # rest) acts s1)"
    using assms(1,2,3) loop_append [OF assms(4), of "i # rest"]
    by (simp add: startWithCredentials_def processStartSessionResponse_def)
  have some: "some_type (type i) (allowedConfirmations r)"
    using assms(3) by (simp add: some_type_def)
  have sub: "fst (submitSteamGuardCode H (emit e s1) code) = Inl ex \<and>
             length (calls (snd (submitSteamGuardCode H (emit e s1) code))) = Suc (length (calls s1)) \<and>
             guard_inputs (snd (submitSteamGuardCode H (emit e s1) code)) = guard_inputs s0"
    if "type i = EmailCode \<or> type i = DeviceCode" for e
  proof -
    have "startSessionResponse (emit e s1) = Some r"
      using g1 assms(2) by (simp add: guard_inputs_def emit_def)
    moreover have "some_type EmailCode (allowedConfirmations r) \<or>
                   some_type DeviceCode (allowedConfirmations r)"
      using some that by auto
    moreover have "h_submitSteamGuardCode H (length (calls (emit e s1))) = Inl ex"
      using assms(6) by simp
    ultimately show ?thesis
      using submitSteamGuardCode_rejected [of "emit e s1" r H ex code]
        submitSteamGuardCode_guard_inputs [of H "emit e s1" code] g1
      by simp
  qed
  have code1: "truthy (steamGuardCode (emit e s1)) \<and> the (steamGuardCode (emit e s1)) = code" for e
    using g1 assms(5) by (simp add: guard_inputs_def emit_def code_def)
  have tried: "trySuppliedCode w H (emit e s1)
               = (if eresult ex \<noteq> Some w then Some (Inl ex) else None,
                  snd (submitSteamGuardCode H (emit e s1) code))"
    if "type i = EmailCode \<or> type i = DeviceCode" for e w
    using sub [OF that, of e] code1 [of e]
    by (cases "submitSteamGuardCode H (emit e s1) code") (simp add: trySuppliedCode_def)
  have through: "(\<exists>s2. startWithCredentials H s d
                 = after_loop (confirmations_loop H rest (acts @ [code_action i]) s2)) \<and>
        (\<forall>res. fst (startWithCredentials H s d) = Inr res \<and> actionRequired res \<longrightarrow>
           (\<exists>more. validActions res = Some (acts @ code_action i # more)))"
    if "confirmations_loop H (i # rest) acts s1
          = confirmations_loop H rest (acts @ [code_action i]) s2" for s2
  proof -
    have eq: "startWithCredentials H s d
                = after_loop (confirmations_loop H rest (acts @ [code_action i]) s2)"
      using whole that by simp
    have "\<exists>more. validActions res = Some (acts @ code_action i # more)"
      if "fst (startWithCredentials H s d) = Inr res \<and> actionRequired res" for res
    proof -
      have "after_loop (confirmations_loop H rest (acts @ [code_action i]) s2)
              = (Inr res, snd (startWithCredentials H s d))"
        using that eq by (metis prod.collapse)
      from after_loop_actions [OF this] that show ?thesis by auto
    qed
    then show ?thesis using eq by blast
  qed
  show ?thesis
  proof (intro conjI impI)
    assume "(type i = DeviceCode \<and> eresult ex = Some TwoFactorCodeMismatch) \<or>
      (type i = EmailCode \<and> eresult ex = Some InvalidLoginAuthCode \<and>
         (\<not> some_type MachineToken (allowedConfirmations r) \<or>
          (\<exists>res. h_checkMachineAuthOrSendCodeEmail H (Suc (length (calls s1))) = Inr res \<and>
                 res \<noteq> OK)))"
    then consider
        (device) "type i = DeviceCode" "eresult ex = Some TwoFactorCodeMismatch"
      | (email) "type i = EmailCode" "eresult ex = Some InvalidLoginAuthCode"
          "\<not> some_type MachineToken (allowedConfirmations r) \<or>
           (\<exists>res. h_checkMachineAuthOrSendCodeEmail H (Suc (length (calls s1))) = Inr res \<and>
                  res \<noteq> OK)"
      by blast
    then have "\<exists>s2. confirmations_loop H (i # rest) acts s1
                      = confirmations_loop H rest (acts @ [code_action i]) s2"
    proof cases
      case device
      define e where "e = Debug ''device code required''"
      have "attemptTotpCodeAuth H (emit e s1)
              = (Inr False, snd (submitSteamGuardCode H (emit e s1) code))"
        using tried [where e = e and w = TwoFactorCodeMismatch] device
        by (simp add: attemptTotpCodeAuth_def)
      then show ?thesis using device by (auto simp: e_def)
    next
      case email
      define e where "e = Debug ''email code required''"
      define s2 where "s2 = snd (submitSteamGuardCode H (emit e s1) code)"
      have r2: "startSessionResponse s2 = Some r" and l2: "length (calls s2) = Suc (length (calls s1))"
        using sub [of e] email(1) assms(2) by (simp_all add: s2_def guard_inputs_def)
      have "fst (machineTokenAuth H s2) = Inr False"
        using machineTokenAuth_fails [OF r2, of H] email(3) l2 by simp
      moreover have "attemptEmailCodeAuth H (emit e s1) = machineTokenAuth H s2"
        using tried [where e = e and w = InvalidLoginAuthCode] email
        by (simp add: attemptEmailCodeAuth_def s2_def)
      ultimately have "attemptEmailCodeAuth H (emit e s1)
                         = (Inr False, snd (machineTokenAuth H s2))"
        by (cases "machineTokenAuth H s2") simp
      then show ?thesis using email by (auto simp: e_def)
    qed
    then obtain s2 where "confirmations_loop H (i # rest) acts s1
                      = confirmations_loop H rest (acts @ [code_action i]) s2" by blast
    from through [OF this]
    show "\<exists>s2. startWithCredentials H s d
                 = after_loop (confirmations_loop H rest (acts @ [code_action i]) s2)"
      and "\<forall>res. fst (startWithCredentials H s d) = Inr res \<and> actionRequired res \<longrightarrow>
           (\<exists>more. validActions res = Some (acts @ code_action i # more))"
      by blast+
  next
    assume "(type i = DeviceCode \<and> eresult ex \<noteq> Some TwoFactorCodeMismatch) \<or>
      (type i = EmailCode \<and> eresult ex \<noteq> Some InvalidLoginAuthCode)"
    then consider
        (device) "type i = DeviceCode" "eresult ex \<noteq> Some TwoFactorCodeMismatch"
      | (email) "type i = EmailCode" "eresult ex \<noteq> Some InvalidLoginAuthCode"
      by blast
    then have "fst (confirmations_loop H (i # rest) acts s1) = Thrown ex"
    proof cases
      case device
      have "fst (attemptTotpCodeAuth H (emit (Debug ''device code required'') s1)) = Inl ex"
        using tried [where e = "Debug ''device code required''" and w = TwoFactorCodeMismatch] device
        by (simp add: attemptTotpCodeAuth_def)
      then show ?thesis using device
        by (cases "attemptTotpCodeAuth H (emit (Debug ''device code required'') s1)") simp
    next
      case email
      have "fst (attemptEmailCodeAuth H (emit (Debug ''email code required'') s1)) = Inl ex"
        using tried [where e = "Debug ''email code required''" and w = InvalidLoginAuthCode] email
        by (simp add: attemptEmailCodeAuth_def)
      then show ?thesis using email
        by (cases "attemptEmailCodeAuth H (emit (Debug ''email code required'') s1)") simp
    qed
    then show "fst (startWithCredentials H s d) = Inl ex"
      unfolding whole
      by (cases "confirmations_loop H (i # rest) acts s1") (simp add: after_loop_def)
  qed
qed

theorem C6_rejected_guard_code_witness:
  "startWithCredentials_request
     (example_client (example_response ''76561198000000001'' [DeviceCode])
        (Inl (EResultError TwoFactorCodeMismatch)) (Inr OK))
     (new_LoginSession None) (example_details (Some ''12345'') None)
     = (Inr (),
        snd (startWithCredentials_request
          (example_client (example_response ''76561198000000001'' [DeviceCode])
             (Inl (EResultError TwoFactorCodeMismatch)) (Inr OK))
          (new_LoginSession None) (example_details (Some ''12345'') None))) \<and>
   allowedConfirmations (example_response ''76561198000000001'' [DeviceCode])
     = [] @ \<lparr>type = DeviceCode, message = None\<rparr> # [] \<and>
   eresult (EResultError TwoFactorCodeMismatch) = Some TwoFactorCodeMismatch \<and>
   fst (startWithCredentials
     (example_client (example_response ''76561198000000001'' [DeviceCode])
        (Inl (EResultError TwoFactorCodeMismatch)) (Inr OK))
     (new_LoginSession None) (example_details (Some ''12345'') None))
     = Inr \<lparr>actionRequired = True,
            validActions = Some [\<lparr>action_type = DeviceCode, detail = None\<rparr>]\<rparr> \<and>
   eresult (EResultError (OtherEResult 84)) \<noteq> Some InvalidLoginAuthCode \<and>
   fst (startWithCredentials
     (example_client (example_response ''76561198000000001'' [EmailCode])
        (Inl (EResultError (OtherEResult 84))) (Inr OK))
     (new_LoginSession None) (example_details (Some ''12345'') None))
     = Inl (EResultError (OtherEResult 84))"
  using
    C6_rejected_guard_code [of
      "example_client (example_response ''76561198000000001'' [DeviceCode])
         (Inl (EResultError TwoFactorCodeMismatch)) (Inr OK)"
      "new_LoginSession None" "example_details (Some ''12345'') None"
      "snd (startWithCredentials_request
          (example_client (example_response ''76561198000000001'' [DeviceCode])
             (Inl (EResultError TwoFactorCodeMismatch)) (Inr OK))
          (new_LoginSession None) (example_details (Some ''12345'') None))"
      "example_response ''76561198000000001'' [DeviceCode]"
      "[]" "\<lparr>type = DeviceCode, message = None\<rparr>" "[]" "[]"
      "(snd (startWithCredentials_request
          (example_client (example_response ''76561198000000001'' [DeviceCode])
             (Inl (EResultError TwoFactorCodeMismatch)) (Inr OK))
          (new_LoginSession None) (example_details (Some ''12345'') None)))\<lparr>pollingCanceled := False\<rparr>"
      "EResultError TwoFactorCodeMismatch"]
    C6_rejected_guard_code [of
      "example_client (example_response ''76561198000000001'' [EmailCode])
         (Inl (EResultError (OtherEResult 84))) (Inr OK)"
      "new_LoginSession None" "example_details (Some ''12345'') None"
      "snd (startWithCredentials_request
          (example_client (example_response ''76561198000000001'' [EmailCode])
             (Inl (EResultError (OtherEResult 84))) (Inr OK))
          (new_LoginSession None) (example_details (Some ''12345'') None))"
      "example_response ''76561198000000001'' [EmailCode]"
      "[]" "\<lparr>type = EmailCode, message = None\<rparr>" "[]" "[]"
      "(snd (startWithCredentials_request
          (example_client (example_response ''76561198000000001'' [EmailCode])
             (Inl (EResultError (OtherEResult 84))) (Inr OK))
          (new_LoginSession None) (example_details (Some ''12345'') None)))\<lparr>pollingCanceled := False\<rparr>"
      "EResultError (OtherEResult 84)"]
  by (simp add: model_defs example_defs Let_def)

text \<open>
  C6 as stated fails: the allowed confirmations are \<open>EmailCode\<close> and \<open>MachineToken\<close>, the
  supplied code is rejected with \<open>InvalidLoginAuthCode\<close>, and the machine-token check
  answers \<open>OK\<close>. The call returns that no action is required; the challenge is in no
  pending-action list.
\<close>

theorem C6_wrong_code_then_machine_token:
  "h_submitSteamGuardCode
     (example_client (example_response ''76561198000000001'' [EmailCode, MachineToken])
        (Inl (EResultError InvalidLoginAuthCode)) (Inr OK)) 2
     = Inl (EResultError InvalidLoginAuthCode) \<and>
   fst (startWithCredentials
     (example_client (example_response ''76561198000000001'' [EmailCode, MachineToken])
        (Inl (EResultError InvalidLoginAuthCode)) (Inr OK))
     (new_LoginSession None) (example_details (Some ''12345'') (Some ''machine-token'')))
     = Inr \<lparr>actionRequired = False, validActions = None\<rparr> \<and>
   calls (snd (startWithCredentials
     (example_client (example_response ''76561198000000001'' [EmailCode, MachineToken])
        (Inl (EResultError InvalidLoginAuthCode)) (Inr OK))
     (new_LoginSession None) (example_details (Some ''12345'') (Some ''machine-token''))))
     = [Call_encryptPassword ''alice'' ''secret'', Call_startSessionWithCredentials ''alice'',
        Call_submitSteamGuardCode ''12345'' EmailCode, Call_checkMachineAuthOrSendCodeEmail (Some ''machine-token'')]"
  by (simp add: model_defs example_defs Let_def)

section \<open>Web cookies: the race of the transfers\<close>













end
